theory Spec2Isabelle
  imports Main
begin

section \<open>Exceptions\<close>

text \<open>
  Every \<^verbatim>\<open>raise HTTPException(status_code=..., detail=...)\<close> of \<^verbatim>\<open>main.py\<close> and
  \<^verbatim>\<open>auth.py\<close> is a value \<open>HTTPException code detail\<close>. The detail texts are f-strings; each
  distinct text is one constructor of \<open>detail\<close>, carrying the values the f-string
  interpolates. Exceptions that the handlers do not convert (an \<^verbatim>\<open>IntegrityError\<close> of the
  database driver, a \<^verbatim>\<open>ValueError\<close> of the bcrypt package) keep their own constructor and
  their message.
\<close>

datatype detail =
    Clinic_not_found int
  | Clinic_does_not_exist int
  | Clinic_has_doctors nat
  | Clinic_has_patients nat
  | Clinic_related_records
  | Doctor_has_patients nat
  | Doctor_has_consultations nat
  | Doctor_related_records
  | Doctor_None_not_found
  | Invalid_clinic_reference
  | No_doctors_found int
  | No_patients_found int
  | Doctor_not_found_in_clinic int
  | Doctor_not_found int
  | Patient_not_found int
  | Doctor_not_active "string option"
  | Patient_not_active "string option"
  | Mobile_exists
  | Email_exists_use_different
  | Invalid_doctor_reference
  | Invalid_reference
  | Constraint_violation string
  | Unexpected_error string
  | Username_registered
  | Email_registered
  | Username_exists
  | Email_exists
  | Could_not_validate
  | User_not_found
  | Inactive_user
  | Not_enough_permissions

datatype exn =
    HTTPException nat detail
  | IntegrityError string
  | InvalidRequestError string
  | ValueError string
  | JWTError string

text \<open>\<^verbatim>\<open>str(e)\<close> of an exception that carries a message.\<close>

fun str_exn :: "exn \<Rightarrow> string" where
  "str_exn (HTTPException c d) = []"
| "str_exn (IntegrityError m) = m"
| "str_exn (InvalidRequestError m) = m"
| "str_exn (ValueError m) = m"
| "str_exn (JWTError m) = m"

section \<open>Strings\<close>

text \<open>
  \<^verbatim>\<open>str.lower()\<close> and the substring test \<^verbatim>\<open>sub in s\<close>, which the handlers apply to
  the driver's message (ASCII text).
\<close>

definition lower_char :: "char \<Rightarrow> char" where
  "lower_char c =
     (let n = (of_char c :: nat) in if 65 \<le> n \<and> n \<le> 90 then char_of (n + 32) else c)"

definition lower :: "string \<Rightarrow> string" where
  "lower s = map lower_char s"

fun startswith :: "string \<Rightarrow> string \<Rightarrow> bool" where
  "startswith s [] = True"
| "startswith [] (c # cs) = False"
| "startswith (x # xs) (c # cs) = (x = c \<and> startswith xs cs)"

fun str_in :: "string \<Rightarrow> string \<Rightarrow> bool" where
  "str_in sub [] = (sub = [])"
| "str_in sub (x # xs) = (startswith (x # xs) sub \<or> str_in sub xs)"

section \<open>Tables (models.py)\<close>

text \<open>
  One record per table. A column declared \<^verbatim>\<open>nullable=False\<close> (or a primary key) has its
  value type, any other column an \<open>option\<close> (\<open>None\<close> is SQL NULL). The timestamp columns
  \<^verbatim>\<open>created_at\<close> and \<^verbatim>\<open>updated_at\<close> are left out: no handler reads them. Field names
  carry the table's initial, since several tables share column names.
\<close>

record clinic =
  c_clinic_id :: int
  c_clinic_name :: string
  c_address :: "string option"
  c_mobile :: string
  c_status :: "string option"

record doctor =
  d_doctor_id :: int
  d_doctor_name :: string
  d_mobile :: string
  d_email :: "string option"
  d_address :: "string option"
  d_specialization :: "string option"
  d_status :: "string option"
  d_clinic_id :: int

record patient =
  p_patient_id :: int
  p_patient_name :: string
  p_mobile :: string
  p_age :: "int option"
  p_gender :: "string option"
  p_status :: "string option"
  p_clinic_id :: int
  p_doctor_id :: int
  p_doctor_name :: string

record consultation =
  pc_consultation_id :: int
  pc_is_primary :: "bool option"
  pc_consultation_date :: "int option"
  pc_status :: "string option"
  pc_clinic_id :: int
  pc_patient_id :: int
  pc_doctor_id :: int

record user =
  u_user_id :: int
  u_username :: string
  u_email :: string
  u_hashed_password :: string
  u_full_name :: "string option"
  u_role :: "string option"
  u_is_active :: "bool option"

record db =
  clinics :: "clinic list"
  doctors :: "doctor list"
  patients :: "patient list"
  consultations :: "consultation list"
  users :: "user list"

section \<open>Request bodies (schemas.py)\<close>

record ClinicCreate =
  cc_clinic_name :: string
  cc_address :: string
  cc_mobile :: string
  cc_status :: string

record DoctorCreate =
  dc_doctor_name :: string
  dc_mobile :: string
  dc_email :: string
  dc_address :: string
  dc_specialization :: string
  dc_status :: string

record PatientCreate =
  pcr_patient_name :: string
  pcr_mobile :: string
  pcr_age :: int
  pcr_gender :: string
  pcr_status :: string
  pcr_doctor_id :: int
  pcr_doctor_name :: string

record PatientConsultationCreate =
  pcc_is_primary :: bool
  pcc_consultation_date :: int
  pcc_status :: string

record UserCreate =
  uc_username :: string
  uc_email :: string
  uc_full_name :: "string option"
  uc_password :: string

text \<open>
  \<^verbatim>\<open>PatientUpdate.model_dump(exclude_unset=True)\<close> is a dictionary from the names of the
  fields the request set to their values, and a value may be \<^verbatim>\<open>None\<close> (an explicit
  JSON null). One item of that dictionary is a \<open>patient_attr\<close>; likewise for
  \<^verbatim>\<open>ClinicUpdate\<close> and \<^verbatim>\<open>DoctorUpdate\<close>.
\<close>

datatype clinic_attr =
    Set_c_clinic_name "string option"
  | Set_c_address "string option"
  | Set_c_mobile "string option"
  | Set_c_status "string option"

datatype doctor_attr =
    Set_d_doctor_name "string option"
  | Set_d_mobile "string option"
  | Set_d_email "string option"
  | Set_d_address "string option"
  | Set_d_specialization "string option"
  | Set_d_status "string option"

datatype patient_attr =
    Set_p_patient_name "string option"
  | Set_p_mobile "string option"
  | Set_p_age "int option"
  | Set_p_gender "string option"
  | Set_p_status "string option"
  | Set_p_doctor_id "int option"
  | Set_p_doctor_name "string option"

section \<open>The SQLAlchemy session\<close>

text \<open>
  A \<open>session\<close> is the committed content of the database (\<open>store\<close>), the changes the
  session holds and has not flushed (\<open>pending\<close>: objects given to \<^verbatim>\<open>db.add\<close>, objects
  given to \<^verbatim>\<open>db.delete\<close> and attributes assigned on loaded objects), and whether a flush
  of the session has failed and \<^verbatim>\<open>db.rollback()\<close> has not been called since
  (\<open>inactive\<close>). The session is created with \<^verbatim>\<open>autoflush=False\<close>, so a query reads the
  store.
\<close>

datatype change =
    Add_clinic ClinicCreate
  | Add_doctor DoctorCreate int
  | Add_patient PatientCreate int
  | Add_consultation PatientConsultationCreate int int int
  | Add_user UserCreate string
  | Delete_clinic int
  | Delete_doctor int
  | Delete_patient int
  | Setattr_clinic int clinic_attr
  | Setattr_doctor int doctor_attr
  | Setattr_patient int patient_attr

record session =
  store :: db
  pending :: "change list"
  inactive :: bool

text \<open>\<^verbatim>\<open>SessionLocal()\<close>, as \<^verbatim>\<open>get_db\<close> calls it for each request: a session with nothing pending.\<close>

definition SessionLocal :: "db \<Rightarrow> session" where
  "SessionLocal d = \<lparr>store = d, pending = [], inactive = False\<rparr>"

text \<open>
  \<^verbatim>\<open>db.add(obj)\<close>, \<^verbatim>\<open>db.delete(obj)\<close> and \<^verbatim>\<open>setattr(obj, key, value)\<close> on a loaded object
  record a change; nothing is written before the flush.
\<close>

definition add :: "change \<Rightarrow> session \<Rightarrow> session" where
  "add c s = s\<lparr>pending := pending s @ [c]\<rparr>"

definition delete :: "change \<Rightarrow> session \<Rightarrow> session" where
  "delete c s = s\<lparr>pending := pending s @ [c]\<rparr>"

definition setattr :: "change \<Rightarrow> session \<Rightarrow> session" where
  "setattr c s = s\<lparr>pending := pending s @ [c]\<rparr>"

definition rollback :: "session \<Rightarrow> session" where
  "rollback s = s\<lparr>pending := [], inactive := False\<rparr>"

text \<open>\<^verbatim>\<open>Query.first()\<close>: the first row that passes the filter, or \<^verbatim>\<open>None\<close>.\<close>

definition first :: "('a \<Rightarrow> bool) \<Rightarrow> 'a list \<Rightarrow> 'a option" where
  "first P rows = (case filter P rows of [] \<Rightarrow> None | r # _ \<Rightarrow> Some r)"

text \<open>\<^verbatim>\<open>Query.count()\<close>: the number of rows that pass the filter.\<close>

definition count :: "('a \<Rightarrow> bool) \<Rightarrow> 'a list \<Rightarrow> nat" where
  "count P rows = length (filter P rows)"

text \<open>An autoincrement primary key: one more than the largest key of the table.\<close>

definition next_id :: "int list \<Rightarrow> int" where
  "next_id ids = (if ids = [] then 1 else Max (set ids) + 1)"

subsection \<open>Flushing one change\<close>

text \<open>
  The constraints are those of \<^verbatim>\<open>models.py\<close>: NOT NULL and UNIQUE columns (a UNIQUE
  column may hold several NULLs). The engine is SQLite as \<^verbatim>\<open>database.py\<close> creates it,
  which does not enforce foreign keys. A violated constraint raises \<^verbatim>\<open>IntegrityError\<close>
  with SQLite's message and writes nothing.

  Deleting an object whose \<^verbatim>\<open>relationship()\<close> collections are not empty makes the ORM
  set the foreign key of each child row to NULL (no relationship of \<^verbatim>\<open>models.py\<close>
  cascades deletes); every foreign key column is NOT NULL, so that update fails.
\<close>

definition set_clinic_attr :: "clinic list \<Rightarrow> clinic \<Rightarrow> clinic_attr \<Rightarrow> exn + clinic" where
  "set_clinic_attr others c a =
     (case a of
        Set_c_clinic_name None \<Rightarrow> Inl (IntegrityError ''NOT NULL constraint failed: clinics.clinic_name'')
      | Set_c_clinic_name (Some v) \<Rightarrow> Inr (c\<lparr>c_clinic_name := v\<rparr>)
      | Set_c_address v \<Rightarrow> Inr (c\<lparr>c_address := v\<rparr>)
      | Set_c_mobile None \<Rightarrow> Inl (IntegrityError ''NOT NULL constraint failed: clinics.mobile'')
      | Set_c_mobile (Some v) \<Rightarrow>
          (if v \<in> set (map c_mobile others)
           then Inl (IntegrityError ''UNIQUE constraint failed: clinics.mobile'')
           else Inr (c\<lparr>c_mobile := v\<rparr>))
      | Set_c_status v \<Rightarrow> Inr (c\<lparr>c_status := v\<rparr>))"

definition set_doctor_attr :: "doctor list \<Rightarrow> doctor \<Rightarrow> doctor_attr \<Rightarrow> exn + doctor" where
  "set_doctor_attr others x a =
     (case a of
        Set_d_doctor_name None \<Rightarrow> Inl (IntegrityError ''NOT NULL constraint failed: doctors.doctor_name'')
      | Set_d_doctor_name (Some v) \<Rightarrow> Inr (x\<lparr>d_doctor_name := v\<rparr>)
      | Set_d_mobile None \<Rightarrow> Inl (IntegrityError ''NOT NULL constraint failed: doctors.mobile'')
      | Set_d_mobile (Some v) \<Rightarrow>
          (if v \<in> set (map d_mobile others)
           then Inl (IntegrityError ''UNIQUE constraint failed: doctors.mobile'')
           else Inr (x\<lparr>d_mobile := v\<rparr>))
      | Set_d_email None \<Rightarrow> Inr (x\<lparr>d_email := None\<rparr>)
      | Set_d_email (Some v) \<Rightarrow>
          (if Some v \<in> set (map d_email others)
           then Inl (IntegrityError ''UNIQUE constraint failed: doctors.email'')
           else Inr (x\<lparr>d_email := Some v\<rparr>))
      | Set_d_address v \<Rightarrow> Inr (x\<lparr>d_address := v\<rparr>)
      | Set_d_specialization v \<Rightarrow> Inr (x\<lparr>d_specialization := v\<rparr>)
      | Set_d_status v \<Rightarrow> Inr (x\<lparr>d_status := v\<rparr>))"

definition set_patient_attr :: "patient list \<Rightarrow> patient \<Rightarrow> patient_attr \<Rightarrow> exn + patient" where
  "set_patient_attr others p a =
     (case a of
        Set_p_patient_name None \<Rightarrow> Inl (IntegrityError ''NOT NULL constraint failed: patients.patient_name'')
      | Set_p_patient_name (Some v) \<Rightarrow> Inr (p\<lparr>p_patient_name := v\<rparr>)
      | Set_p_mobile None \<Rightarrow> Inl (IntegrityError ''NOT NULL constraint failed: patients.mobile'')
      | Set_p_mobile (Some v) \<Rightarrow>
          (if v \<in> set (map p_mobile others)
           then Inl (IntegrityError ''UNIQUE constraint failed: patients.mobile'')
           else Inr (p\<lparr>p_mobile := v\<rparr>))
      | Set_p_age v \<Rightarrow> Inr (p\<lparr>p_age := v\<rparr>)
      | Set_p_gender v \<Rightarrow> Inr (p\<lparr>p_gender := v\<rparr>)
      | Set_p_status v \<Rightarrow> Inr (p\<lparr>p_status := v\<rparr>)
      | Set_p_doctor_id None \<Rightarrow> Inl (IntegrityError ''NOT NULL constraint failed: patients.doctor_id'')
      | Set_p_doctor_id (Some v) \<Rightarrow> Inr (p\<lparr>p_doctor_id := v\<rparr>)
      | Set_p_doctor_name None \<Rightarrow> Inl (IntegrityError ''NOT NULL constraint failed: patients.doctor_name'')
      | Set_p_doctor_name (Some v) \<Rightarrow> Inr (p\<lparr>p_doctor_name := v\<rparr>))"

definition flush1 :: "change \<Rightarrow> db \<Rightarrow> exn + db" where
  "flush1 c d =
     (case c of
        Add_clinic b \<Rightarrow>
          (if cc_mobile b \<in> set (map c_mobile (clinics d))
           then Inl (IntegrityError ''UNIQUE constraint failed: clinics.mobile'')
           else Inr (d\<lparr>clinics := clinics d @
                  [\<lparr>c_clinic_id = next_id (map c_clinic_id (clinics d)),
                    c_clinic_name = cc_clinic_name b, c_address = Some (cc_address b),
                    c_mobile = cc_mobile b, c_status = Some (cc_status b)\<rparr>]\<rparr>))
      | Add_doctor b cid \<Rightarrow>
          (if dc_mobile b \<in> set (map d_mobile (doctors d))
           then Inl (IntegrityError ''UNIQUE constraint failed: doctors.mobile'')
           else if Some (dc_email b) \<in> set (map d_email (doctors d))
           then Inl (IntegrityError ''UNIQUE constraint failed: doctors.email'')
           else Inr (d\<lparr>doctors := doctors d @
                  [\<lparr>d_doctor_id = next_id (map d_doctor_id (doctors d)),
                    d_doctor_name = dc_doctor_name b, d_mobile = dc_mobile b,
                    d_email = Some (dc_email b), d_address = Some (dc_address b),
                    d_specialization = Some (dc_specialization b),
                    d_status = Some (dc_status b), d_clinic_id = cid\<rparr>]\<rparr>))
      | Add_patient b cid \<Rightarrow>
          (if pcr_mobile b \<in> set (map p_mobile (patients d))
           then Inl (IntegrityError ''UNIQUE constraint failed: patients.mobile'')
           else Inr (d\<lparr>patients := patients d @
                  [\<lparr>p_patient_id = next_id (map p_patient_id (patients d)),
                    p_patient_name = pcr_patient_name b, p_mobile = pcr_mobile b,
                    p_age = Some (pcr_age b), p_gender = Some (pcr_gender b),
                    p_status = Some (pcr_status b), p_clinic_id = cid,
                    p_doctor_id = pcr_doctor_id b, p_doctor_name = pcr_doctor_name b\<rparr>]\<rparr>))
      | Add_consultation b cid pid did \<Rightarrow>
          Inr (d\<lparr>consultations := consultations d @
                  [\<lparr>pc_consultation_id = next_id (map pc_consultation_id (consultations d)),
                    pc_is_primary = Some (pcc_is_primary b),
                    pc_consultation_date = Some (pcc_consultation_date b),
                    pc_status = Some (pcc_status b), pc_clinic_id = cid,
                    pc_patient_id = pid, pc_doctor_id = did\<rparr>]\<rparr>)
      | Add_user b h \<Rightarrow>
          (if uc_email b \<in> set (map u_email (users d))
           then Inl (IntegrityError ''UNIQUE constraint failed: users.email'')
           else Inr (d\<lparr>users := users d @
                  [\<lparr>u_user_id = next_id (map u_user_id (users d)),
                    u_username = uc_username b, u_email = uc_email b,
                    u_hashed_password = h, u_full_name = uc_full_name b,
                    u_role = Some ''user'', u_is_active = Some True\<rparr>]\<rparr>))
      | Delete_clinic cid \<Rightarrow>
          (if filter (\<lambda>x. d_clinic_id x = cid) (doctors d) \<noteq> []
           then Inl (IntegrityError ''NOT NULL constraint failed: doctors.clinic_id'')
           else if filter (\<lambda>p. p_clinic_id p = cid) (patients d) \<noteq> []
           then Inl (IntegrityError ''NOT NULL constraint failed: patients.clinic_id'')
           else if filter (\<lambda>c. pc_clinic_id c = cid) (consultations d) \<noteq> []
           then Inl (IntegrityError ''NOT NULL constraint failed: patients_consultations.clinic_id'')
           else Inr (d\<lparr>clinics := filter (\<lambda>c. c_clinic_id c \<noteq> cid) (clinics d)\<rparr>))
      | Delete_doctor did \<Rightarrow>
          (if filter (\<lambda>p. p_doctor_id p = did) (patients d) \<noteq> []
           then Inl (IntegrityError ''NOT NULL constraint failed: patients.doctor_id'')
           else if filter (\<lambda>c. pc_doctor_id c = did) (consultations d) \<noteq> []
           then Inl (IntegrityError ''NOT NULL constraint failed: patients_consultations.doctor_id'')
           else Inr (d\<lparr>doctors := filter (\<lambda>x. d_doctor_id x \<noteq> did) (doctors d)\<rparr>))
      | Delete_patient pid \<Rightarrow>
          (if filter (\<lambda>c. pc_patient_id c = pid) (consultations d) \<noteq> []
           then Inl (IntegrityError ''NOT NULL constraint failed: patients_consultations.patient_id'')
           else Inr (d\<lparr>patients := filter (\<lambda>p. p_patient_id p \<noteq> pid) (patients d)\<rparr>))
      | Setattr_clinic cid a \<Rightarrow>
          (case first (\<lambda>c. c_clinic_id c = cid) (clinics d) of
             None \<Rightarrow> Inr d
           | Some c \<Rightarrow>
               (case set_clinic_attr (filter (\<lambda>q. c_clinic_id q \<noteq> cid) (clinics d)) c a of
                  Inl e \<Rightarrow> Inl e
                | Inr c' \<Rightarrow>
                    Inr (d\<lparr>clinics :=
                      map (\<lambda>q. if c_clinic_id q = cid then c' else q) (clinics d)\<rparr>)))
      | Setattr_doctor did a \<Rightarrow>
          (case first (\<lambda>x. d_doctor_id x = did) (doctors d) of
             None \<Rightarrow> Inr d
           | Some x \<Rightarrow>
               (case set_doctor_attr (filter (\<lambda>q. d_doctor_id q \<noteq> did) (doctors d)) x a of
                  Inl e \<Rightarrow> Inl e
                | Inr x' \<Rightarrow>
                    Inr (d\<lparr>doctors :=
                      map (\<lambda>q. if d_doctor_id q = did then x' else q) (doctors d)\<rparr>)))
      | Setattr_patient pid a \<Rightarrow>
          (case first (\<lambda>p. p_patient_id p = pid) (patients d) of
             None \<Rightarrow> Inr d
           | Some p \<Rightarrow>
               (case set_patient_attr (filter (\<lambda>q. p_patient_id q \<noteq> pid) (patients d)) p a of
                  Inl e \<Rightarrow> Inl e
                | Inr p' \<Rightarrow>
                    Inr (d\<lparr>patients :=
                      map (\<lambda>q. if p_patient_id q = pid then p' else q) (patients d)\<rparr>))))"

fun flush :: "change list \<Rightarrow> db \<Rightarrow> exn + db" where
  "flush [] d = Inr d"
| "flush (c # cs) d = (case flush1 c d of Inl e \<Rightarrow> Inl e | Inr d' \<Rightarrow> flush cs d')"

text \<open>
  \<^verbatim>\<open>db.commit()\<close> flushes the pending changes in one transaction. When the flush raises,
  the ORM rolls the database transaction back and drops the pending changes before the
  exception leaves \<^verbatim>\<open>commit\<close>: the store keeps its content, and the session stays
  inactive until \<^verbatim>\<open>db.rollback()\<close> is called (or the \<^verbatim>\<open>db.close()\<close> of \<^verbatim>\<open>get_db\<close>
  releases it). Every handler commits at most once.
\<close>

definition commit :: "session \<Rightarrow> (exn + unit) \<times> session" where
  "commit s =
     (case flush (pending s) (store s) of
        Inl e \<Rightarrow> (Inl e, s\<lparr>pending := [], inactive := True\<rparr>)
      | Inr d \<Rightarrow> (Inr (), \<lparr>store = d, pending = [], inactive = False\<rparr>))"

text \<open>
  \<^verbatim>\<open>db.refresh(obj)\<close> after adding \<open>obj\<close>: the row the flush appended to the table; the call
  raises when there is no such row.
\<close>

definition refresh :: "'a list \<Rightarrow> exn + 'a" where
  "refresh rows =
     (case rev rows of
        [] \<Rightarrow> Inl (InvalidRequestError ''Could not refresh instance'')
      | r # _ \<Rightarrow> Inr r)"

section \<open>Clinics (main.py)\<close>

definition create_clinic :: "ClinicCreate \<Rightarrow> session \<Rightarrow> (exn + clinic) \<times> session" where
  "create_clinic clinic s =
     (case commit (add (Add_clinic clinic) s) of
        (Inr u, s') \<Rightarrow>
          (case refresh (clinics (store s')) of
             Inr db_clinic \<Rightarrow> (Inr db_clinic, s')
           | Inl e \<Rightarrow> (Inl (HTTPException 500 (Unexpected_error (str_exn e))), rollback s'))
      | (Inl (IntegrityError m), s') \<Rightarrow>
          (let s'' = rollback s'; error_message = lower m in
           if str_in ''mobile'' error_message
           then (Inl (HTTPException 400 Mobile_exists), s'')
           else (Inl (HTTPException 400 (Constraint_violation m)), s''))
      | (Inl e, s') \<Rightarrow>
          (Inl (HTTPException 500 (Unexpected_error (str_exn e))), rollback s'))"

definition delete_clinic :: "int \<Rightarrow> session \<Rightarrow> (exn + unit) \<times> session" where
  "delete_clinic clinic_id s =
     (case first (\<lambda>c. c_clinic_id c = clinic_id) (clinics (store s)) of
        None \<Rightarrow> (Inl (HTTPException 404 (Clinic_not_found clinic_id)), s)
      | Some clinic \<Rightarrow>
          (let doctor_count = count (\<lambda>d. d_clinic_id d = clinic_id) (doctors (store s)) in
           if doctor_count > 0
           then (Inl (HTTPException 400 (Clinic_has_doctors doctor_count)), s)
           else
             (let patient_count = count (\<lambda>p. p_clinic_id p = clinic_id) (patients (store s)) in
              if patient_count > 0
              then (Inl (HTTPException 400 (Clinic_has_patients patient_count)), s)
              else
                (case commit (delete (Delete_clinic (c_clinic_id clinic)) s) of
                   (Inr u, s') \<Rightarrow> (Inr (), s')
                 | (Inl (IntegrityError m), s') \<Rightarrow>
                     (Inl (HTTPException 400 Clinic_related_records), rollback s')
                 | (Inl e, s') \<Rightarrow>
                     (Inl (HTTPException 500 (Unexpected_error (str_exn e))), rollback s')))))"

definition update_clinic ::
    "int \<Rightarrow> clinic_attr list \<Rightarrow> session \<Rightarrow> (exn + clinic) \<times> session" where
  "update_clinic clinic_id update_data s =
     (case first (\<lambda>c. c_clinic_id c = clinic_id) (clinics (store s)) of
        None \<Rightarrow> (Inl (HTTPException 404 (Clinic_not_found clinic_id)), s)
      | Some clinic \<Rightarrow>
          (let s1 = foldl (\<lambda>t a. setattr (Setattr_clinic (c_clinic_id clinic) a) t) s update_data in
           case commit s1 of
             (Inr u, s2) \<Rightarrow>
               (case first (\<lambda>c. c_clinic_id c = c_clinic_id clinic) (clinics (store s2)) of
                  Some clinic' \<Rightarrow> (Inr clinic', s2)
                | None \<Rightarrow>
                    (Inl (HTTPException 500 (Unexpected_error ''Could not refresh instance'')),
                     rollback s2))
           | (Inl (IntegrityError m), s2) \<Rightarrow>
               (let s3 = rollback s2; error_message = lower m in
                if str_in ''mobile'' error_message
                then (Inl (HTTPException 400 Mobile_exists), s3)
                else (Inl (HTTPException 400 (Constraint_violation m)), s3))
           | (Inl e, s2) \<Rightarrow>
               (Inl (HTTPException 500 (Unexpected_error (str_exn e))), rollback s2)))"

section \<open>Doctors (main.py)\<close>

definition create_doctor :: "int \<Rightarrow> DoctorCreate \<Rightarrow> session \<Rightarrow> (exn + doctor) \<times> session" where
  "create_doctor clinic_id doctor s =
     (case first (\<lambda>c. c_clinic_id c = clinic_id) (clinics (store s)) of
        None \<Rightarrow> (Inl (HTTPException 404 (Clinic_not_found clinic_id)), s)
      | Some clinic \<Rightarrow>
          (case commit (add (Add_doctor doctor clinic_id) s) of
             (Inr u, s') \<Rightarrow>
               (case refresh (doctors (store s')) of
                  Inr db_doctor \<Rightarrow> (Inr db_doctor, s')
                | Inl e \<Rightarrow>
                    (Inl (HTTPException 500 (Unexpected_error (str_exn e))), rollback s'))
           | (Inl (IntegrityError m), s') \<Rightarrow>
               (let s'' = rollback s'; error_message = m in
                if str_in ''mobile'' (lower error_message)
                then (Inl (HTTPException 400 Mobile_exists), s'')
                else if str_in ''email'' (lower error_message)
                then (Inl (HTTPException 400 Email_exists_use_different), s'')
                else if str_in ''foreign key'' (lower error_message)
                then (Inl (HTTPException 400 Invalid_clinic_reference), s'')
                else (Inl (HTTPException 400 (Constraint_violation error_message)), s''))
           | (Inl e, s') \<Rightarrow>
               (Inl (HTTPException 500 (Unexpected_error (str_exn e))), rollback s')))"

definition update_doctor ::
    "int \<Rightarrow> int \<Rightarrow> doctor_attr list \<Rightarrow> session \<Rightarrow> (exn + doctor) \<times> session" where
  "update_doctor clinic_id doctor_id update_data s =
     (case first (\<lambda>c. c_clinic_id c = clinic_id) (clinics (store s)) of
        None \<Rightarrow> (Inl (HTTPException 404 (Clinic_does_not_exist clinic_id)), s)
      | Some clinic \<Rightarrow>
          (case first (\<lambda>x. d_clinic_id x = clinic_id \<and> d_doctor_id x = doctor_id)
                  (doctors (store s)) of
             None \<Rightarrow> (Inl (HTTPException 404 (No_doctors_found clinic_id)), s)
           | Some doctor \<Rightarrow>
               (let s1 = foldl (\<lambda>t a. setattr (Setattr_doctor (d_doctor_id doctor) a) t)
                           s update_data in
                case commit s1 of
                  (Inr u, s2) \<Rightarrow>
                    (case first (\<lambda>x. d_doctor_id x = d_doctor_id doctor) (doctors (store s2)) of
                       Some doctor' \<Rightarrow> (Inr doctor', s2)
                     | None \<Rightarrow>
                         (Inl (HTTPException 500 (Unexpected_error ''Could not refresh instance'')),
                          rollback s2))
                | (Inl (IntegrityError m), s2) \<Rightarrow>
                    (let s3 = rollback s2; error_message = lower m in
                     if str_in ''mobile'' error_message
                     then (Inl (HTTPException 400 Mobile_exists), s3)
                     else if str_in ''email'' error_message
                     then (Inl (HTTPException 400 Email_exists_use_different), s3)
                     else (Inl (HTTPException 400 (Constraint_violation m)), s3))
                | (Inl e, s2) \<Rightarrow>
                    (Inl (HTTPException 500 (Unexpected_error (str_exn e))), rollback s2))))"

definition delete_doctor :: "int \<Rightarrow> int \<Rightarrow> session \<Rightarrow> (exn + unit) \<times> session" where
  "delete_doctor clinic_id doctor_id s =
     (case first (\<lambda>c. c_clinic_id c = clinic_id) (clinics (store s)) of
        None \<Rightarrow> (Inl (HTTPException 404 (Clinic_does_not_exist clinic_id)), s)
      | Some clinic \<Rightarrow>
          (case first (\<lambda>x. d_clinic_id x = clinic_id \<and> d_doctor_id x = doctor_id)
                  (doctors (store s)) of
             None \<Rightarrow> (Inl (HTTPException 404 (Doctor_not_found doctor_id)), s)
           | Some doctor \<Rightarrow>
               (let patient_count = count (\<lambda>p. p_doctor_id p = doctor_id) (patients (store s)) in
                if patient_count > 0
                then (Inl (HTTPException 400 (Doctor_has_patients patient_count)), s)
                else
                  (let consultation_count =
                         count (\<lambda>c. pc_doctor_id c = doctor_id) (consultations (store s)) in
                   if consultation_count > 0
                   then (Inl (HTTPException 400 (Doctor_has_consultations consultation_count)), s)
                   else
                     (case commit (delete (Delete_doctor (d_doctor_id doctor)) s) of
                        (Inr u, s') \<Rightarrow> (Inr (), s')
                      | (Inl (IntegrityError m), s') \<Rightarrow>
                          (Inl (HTTPException 400 Doctor_related_records), rollback s')
                      | (Inl e, s') \<Rightarrow>
                          (Inl (HTTPException 500 (Unexpected_error (str_exn e))), rollback s'))))))"

definition get_doctors_by_clinic :: "int \<Rightarrow> session \<Rightarrow> exn + doctor list" where
  "get_doctors_by_clinic clinic_id s =
     (case first (\<lambda>c. c_clinic_id c = clinic_id) (clinics (store s)) of
        None \<Rightarrow> Inl (HTTPException 404 (Clinic_not_found clinic_id))
      | Some clinic \<Rightarrow>
          (let doctors = filter (\<lambda>d. d_clinic_id d = clinic_id) (doctors (store s)) in
           if doctors = [] then Inl (HTTPException 404 (No_doctors_found clinic_id))
           else Inr doctors))"

section \<open>Patients (main.py)\<close>

definition create_patient :: "int \<Rightarrow> PatientCreate \<Rightarrow> session \<Rightarrow> (exn + patient) \<times> session" where
  "create_patient clinic_id patient s =
     (case first (\<lambda>c. c_clinic_id c = clinic_id) (clinics (store s)) of
        None \<Rightarrow> (Inl (HTTPException 404 (Clinic_not_found clinic_id)), s)
      | Some clinic \<Rightarrow>
          (case first (\<lambda>d. d_doctor_id d = pcr_doctor_id patient \<and> d_clinic_id d = clinic_id)
                  (doctors (store s)) of
             None \<Rightarrow>
               (Inl (HTTPException 404 (Doctor_not_found_in_clinic (pcr_doctor_id patient))), s)
           | Some doctor \<Rightarrow>
               (case commit (add (Add_patient patient clinic_id) s) of
                  (Inr u, s') \<Rightarrow>
                    (case refresh (patients (store s')) of
                       Inr db_patient \<Rightarrow> (Inr db_patient, s')
                     | Inl e \<Rightarrow>
                         (Inl (HTTPException 500 (Unexpected_error (str_exn e))), rollback s'))
                | (Inl (IntegrityError m), s') \<Rightarrow>
                    (let s'' = rollback s'; error_message = lower m in
                     if str_in ''mobile'' error_message
                     then (Inl (HTTPException 400 Mobile_exists), s'')
                     else if str_in ''foreign key'' error_message \<or> str_in ''doctor_id'' error_message
                     then (Inl (HTTPException 400 Invalid_doctor_reference), s'')
                     else (Inl (HTTPException 400 (Constraint_violation m)), s''))
                | (Inl e, s') \<Rightarrow>
                    (Inl (HTTPException 500 (Unexpected_error (str_exn e))), rollback s'))))"

definition get_patients_by_clinic :: "int \<Rightarrow> session \<Rightarrow> exn + patient list" where
  "get_patients_by_clinic clinic_id s =
     (case first (\<lambda>c. c_clinic_id c = clinic_id) (clinics (store s)) of
        None \<Rightarrow> Inl (HTTPException 404 (Clinic_not_found clinic_id))
      | Some clinic \<Rightarrow>
          (let patients = filter (\<lambda>p. p_clinic_id p = clinic_id) (patients (store s)) in
           if patients = [] then Inl (HTTPException 404 (No_patients_found clinic_id))
           else Inr patients))"

text \<open>
  \<^verbatim>\<open>update_patient\<close> has no \<^verbatim>\<open>try\<close>: an exception of \<^verbatim>\<open>db.commit()\<close> or of
  \<^verbatim>\<open>db.refresh()\<close> leaves the handler as it is, and \<^verbatim>\<open>db.rollback()\<close> is not called.
\<close>

definition update_patient ::
    "int \<Rightarrow> int \<Rightarrow> patient_attr list \<Rightarrow> session \<Rightarrow> (exn + patient) \<times> session" where
  "update_patient clinic_id patient_id update_data s =
     (case first (\<lambda>c. c_clinic_id c = clinic_id) (clinics (store s)) of
        None \<Rightarrow> (Inl (HTTPException 404 (Clinic_does_not_exist clinic_id)), s)
      | Some clinic \<Rightarrow>
          (case first (\<lambda>p. p_clinic_id p = clinic_id \<and> p_patient_id p = patient_id)
                  (patients (store s)) of
             None \<Rightarrow> (Inl (HTTPException 404 (No_patients_found clinic_id)), s)
           | Some patient \<Rightarrow>
               (let s1 = foldl (\<lambda>t a. setattr (Setattr_patient (p_patient_id patient) a) t)
                           s update_data in
                case commit s1 of
                  (Inl e, s2) \<Rightarrow> (Inl e, s2)
                | (Inr u, s2) \<Rightarrow>
                    (case first (\<lambda>p. p_patient_id p = p_patient_id patient) (patients (store s2)) of
                       None \<Rightarrow> (Inl (InvalidRequestError ''Could not refresh instance''), s2)
                     | Some patient' \<Rightarrow> (Inr patient', s2)))))"

text \<open>
  \<^verbatim>\<open>delete_patient\<close> first looks for any patient of the clinic, then for the patient; it
  has no \<^verbatim>\<open>try\<close> either.
\<close>

definition delete_patient :: "int \<Rightarrow> int \<Rightarrow> session \<Rightarrow> (exn + unit) \<times> session" where
  "delete_patient clinic_id patient_id s =
     (case first (\<lambda>p. p_clinic_id p = clinic_id) (patients (store s)) of
        None \<Rightarrow> (Inl (HTTPException 404 (Clinic_does_not_exist clinic_id)), s)
      | Some any_patient \<Rightarrow>
          (case first (\<lambda>p. p_clinic_id p = clinic_id \<and> p_patient_id p = patient_id)
                  (patients (store s)) of
             None \<Rightarrow> (Inl (HTTPException 404 Doctor_None_not_found), s)
           | Some patient \<Rightarrow>
               (case commit (delete (Delete_patient (p_patient_id patient)) s) of
                  (Inl e, s') \<Rightarrow> (Inl e, s')
                | (Inr u, s') \<Rightarrow> (Inr (), s'))))"

section \<open>Consultations (main.py)\<close>

definition create_doctor_patient_consultation ::
    "int \<Rightarrow> int \<Rightarrow> int \<Rightarrow> PatientConsultationCreate \<Rightarrow> session
       \<Rightarrow> (exn + consultation) \<times> session" where
  "create_doctor_patient_consultation clinic_id doctor_id patient_id consultation s =
     (case first (\<lambda>c. c_clinic_id c = clinic_id) (clinics (store s)) of
        None \<Rightarrow> (Inl (HTTPException 404 (Clinic_not_found clinic_id)), s)
      | Some clinic \<Rightarrow>
          (case first (\<lambda>d. d_doctor_id d = doctor_id \<and> d_clinic_id d = clinic_id)
                  (doctors (store s)) of
             None \<Rightarrow> (Inl (HTTPException 404 (Doctor_not_found doctor_id)), s)
           | Some doctor \<Rightarrow>
               (case first (\<lambda>p. p_patient_id p = patient_id \<and> p_clinic_id p = clinic_id)
                       (patients (store s)) of
                  None \<Rightarrow> (Inl (HTTPException 404 (Patient_not_found patient_id)), s)
                | Some patient \<Rightarrow>
                    if d_status doctor \<noteq> Some ''active''
                    then (Inl (HTTPException 400 (Doctor_not_active (d_status doctor))), s)
                    else if p_status patient \<noteq> Some ''active''
                    then (Inl (HTTPException 400 (Patient_not_active (p_status patient))), s)
                    else
                      (case commit (add (Add_consultation consultation clinic_id patient_id doctor_id) s) of
                         (Inr u, s') \<Rightarrow>
                           (case refresh (consultations (store s')) of
                              Inr db_consultation \<Rightarrow> (Inr db_consultation, s')
                            | Inl e \<Rightarrow>
                                (Inl (HTTPException 500 (Unexpected_error (str_exn e))), rollback s'))
                       | (Inl (IntegrityError m), s') \<Rightarrow>
                           (let s'' = rollback s'; error_message = lower m in
                            if str_in ''foreign key'' error_message
                            then (Inl (HTTPException 400 Invalid_reference), s'')
                            else (Inl (HTTPException 400 (Constraint_violation m)), s''))
                       | (Inl e, s') \<Rightarrow>
                           (Inl (HTTPException 500 (Unexpected_error (str_exn e))), rollback s')))))"

section \<open>Passwords (auth.py)\<close>

text \<open>
  The bcrypt package is not part of the repository; it is a parameter of the model,
  described by what its documentation fixes. A hash is the 29 bytes of settings
  (\<^verbatim>\<open>$2b$\<close>, the cost, \<^verbatim>\<open>$\<close>, 22 characters of salt) followed by the digest.
  \<^verbatim>\<open>hashpw(password, salt)\<close> reads the settings from the first 29 bytes of its second
  argument, which may be a salt or a whole hash, and raises \<^verbatim>\<open>ValueError\<close> when they do
  not parse. At most 72 bytes of the password are used. Which passwords the package
  refuses with \<^verbatim>\<open>ValueError\<close> depends on its version (one with a NUL byte before 4.0,
  one of more than 72 bytes from 5.0 on; a version in between cuts a long password
  silently): \<open>refuses\<close> gives the message for a refused password.
  \<^verbatim>\<open>checkpw\<close> hashes the password with the settings of the stored hash and compares.
  Python strings are modelled by their UTF-8 bytes, so \<^verbatim>\<open>encode\<close> and \<^verbatim>\<open>decode\<close> are
  the identity.
\<close>

record bcrypt =
  accepts :: "string \<Rightarrow> bool"
  digest :: "string \<Rightarrow> string \<Rightarrow> string"
  refuses :: "string \<Rightarrow> string option"

definition hashpw :: "bcrypt \<Rightarrow> string \<Rightarrow> string \<Rightarrow> exn + string" where
  "hashpw lib password salt =
     (case refuses lib password of
        Some message \<Rightarrow> Inl (ValueError message)
      | None \<Rightarrow>
          if length salt < 29 \<or> \<not> accepts lib (take 29 salt)
          then Inl (ValueError ''Invalid salt'')
          else Inr (take 29 salt @ digest lib (take 29 salt) (take 72 password)))"

definition checkpw :: "bcrypt \<Rightarrow> string \<Rightarrow> string \<Rightarrow> exn + bool" where
  "checkpw lib password hashed_password =
     (case hashpw lib password hashed_password of
        Inl e \<Rightarrow> Inl e
      | Inr h \<Rightarrow> Inr (h = hashed_password))"

text \<open>What \<^verbatim>\<open>bcrypt.gensalt()\<close> returns: 29 bytes of settings that parse.\<close>

definition gensalt :: "bcrypt \<Rightarrow> string \<Rightarrow> bool" where
  "gensalt lib salt = (length salt = 29 \<and> accepts lib salt)"

text \<open>\<open>salt\<close> is the value the call \<^verbatim>\<open>bcrypt.gensalt()\<close> returned.\<close>

definition hash_password :: "bcrypt \<Rightarrow> string \<Rightarrow> string \<Rightarrow> exn + string" where
  "hash_password lib salt password =
     (let password_bytes = password in hashpw lib password_bytes salt)"

definition verify_password :: "bcrypt \<Rightarrow> string \<Rightarrow> string \<Rightarrow> exn + bool" where
  "verify_password lib plain_password hashed_password =
     (let password_bytes = plain_password; hashed_bytes = hashed_password
      in checkpw lib password_bytes hashed_bytes)"

text \<open>\<^verbatim>\<open>verify_password(p, hash_password(q))\<close>: an exception of the inner call leaves the outer.\<close>

definition verify_hashed :: "bcrypt \<Rightarrow> string \<Rightarrow> string \<Rightarrow> string \<Rightarrow> exn + bool" where
  "verify_hashed lib salt p q =
     (case hash_password lib salt q of
        Inl e \<Rightarrow> Inl e
      | Inr h \<Rightarrow> verify_password lib p h)"

section \<open>Tokens (auth.py)\<close>

text \<open>
  A \<^verbatim>\<open>datetime\<close> is a number of microseconds since the epoch and a \<^verbatim>\<open>timedelta\<close> a
  number of microseconds; \<open>now\<close> is what \<^verbatim>\<open>datetime.utcnow()\<close> returns at the call. The
  python-jose package is a parameter as well: the payload of a token is a dictionary, its
  signature \<open>hs256 key payload\<close> for a function \<open>hs256\<close> that is not fixed, and the
  serialisation of the two into a string is taken to be faithful; a string that is not
  such a serialisation is \<open>Malformed\<close>. \<^verbatim>\<open>jwt.encode\<close> writes
  a \<^verbatim>\<open>datetime\<close> under \<^verbatim>\<open>exp\<close> as whole seconds (\<^verbatim>\<open>timegm(utctimetuple())\<close>);
  \<^verbatim>\<open>jwt.decode\<close> checks the signature, then that \<^verbatim>\<open>exp\<close> is not less than the whole
  seconds of the current time, then that \<^verbatim>\<open>sub\<close>, when present, is a string, and raises a
  \<^verbatim>\<open>JWTError\<close> otherwise.
\<close>

datatype jval = JStr string | JInt int | JDatetime int

type_synonym claims = "string \<Rightarrow> jval option"

datatype token = Token claims string | Malformed string

definition SECRET_KEY :: string where
  "SECRET_KEY = ''your-secret-key-here-change-this-in-production''"

definition timedelta_minutes :: "int \<Rightarrow> int" where
  "timedelta_minutes n = n * 60 * 1000000"

definition timegm :: "int \<Rightarrow> int" where
  "timegm t = t div 1000000"

definition jwt_encode :: "(string \<Rightarrow> claims \<Rightarrow> string) \<Rightarrow> claims \<Rightarrow> string \<Rightarrow> token" where
  "jwt_encode hs256 cl key =
     (let payload = (\<lambda>k. case cl k of
                          Some (JDatetime t) \<Rightarrow>
                            if k = ''exp'' \<or> k = ''iat'' \<or> k = ''nbf''
                            then Some (JInt (timegm t)) else Some (JDatetime t)
                        | v \<Rightarrow> v)
      in Token payload (hs256 key payload))"

definition jwt_decode ::
    "(string \<Rightarrow> claims \<Rightarrow> string) \<Rightarrow> int \<Rightarrow> token \<Rightarrow> string \<Rightarrow> exn + claims" where
  "jwt_decode hs256 now tok key =
     (case tok of
        Malformed s \<Rightarrow> Inl (JWTError ''Not enough segments'')
      | Token payload signature \<Rightarrow>
        if hs256 key payload \<noteq> signature
        then Inl (JWTError ''Signature verification failed.'')
        else
          (let checked_sub =
                 (case payload ''sub'' of
                    None \<Rightarrow> Inr payload
                  | Some (JStr u) \<Rightarrow> Inr payload
                  | Some v \<Rightarrow> Inl (JWTError ''Subject must be a string.''))
           in case payload ''exp'' of
                None \<Rightarrow> checked_sub
              | Some (JInt e) \<Rightarrow>
                  if e < timegm now then Inl (JWTError ''Signature has expired.'')
                  else checked_sub
              | Some v \<Rightarrow> Inl (JWTError ''Expiration Time claim (exp) must be an integer.'')))"

definition create_access_token ::
    "(string \<Rightarrow> claims \<Rightarrow> string) \<Rightarrow> int \<Rightarrow> claims \<Rightarrow> int option \<Rightarrow> token" where
  "create_access_token hs256 now data expires_delta =
     (let to_encode = data;
          expire = (case expires_delta of
                      None \<Rightarrow> now + timedelta_minutes 15
                    | Some delta \<Rightarrow>
                        if delta \<noteq> 0 then now + delta else now + timedelta_minutes 15);
          to_encode = to_encode(''exp'' \<mapsto> JDatetime expire)
      in jwt_encode hs256 to_encode SECRET_KEY)"

definition verify_token :: "(string \<Rightarrow> claims \<Rightarrow> string) \<Rightarrow> int \<Rightarrow> token \<Rightarrow> exn + claims" where
  "verify_token hs256 now tok =
     (case jwt_decode hs256 now tok SECRET_KEY of
        Inl e \<Rightarrow> Inl (HTTPException 401 Could_not_validate)
      | Inr payload \<Rightarrow>
          (case payload ''sub'' of
             None \<Rightarrow> Inl (HTTPException 401 Could_not_validate)
           | Some username \<Rightarrow> Inr payload))"

text \<open>The dictionary \<^verbatim>\<open>{"sub": username, "role": role}\<close>.\<close>

definition token_data :: "string \<Rightarrow> string \<Rightarrow> claims" where
  "token_data username role = [''sub'' \<mapsto> JStr username, ''role'' \<mapsto> JStr role]"

section \<open>The current user (auth.py)\<close>

text \<open>
  \<^verbatim>\<open>get_current_user\<close> only queries the session; it returns the session next to its
  result, as the handlers do.
\<close>

definition get_current_user ::
    "(string \<Rightarrow> claims \<Rightarrow> string) \<Rightarrow> int \<Rightarrow> token \<Rightarrow> session \<Rightarrow> (exn + user) \<times> session" where
  "get_current_user hs256 now tok s =
     (case verify_token hs256 now tok of
        Inl e \<Rightarrow> (Inl e, s)
      | Inr td \<Rightarrow>
          (case first (\<lambda>u. Some (JStr (u_username u)) = td ''sub'') (users (store s)) of
             None \<Rightarrow> (Inl (HTTPException 401 User_not_found), s)
           | Some usr \<Rightarrow>
               if u_is_active usr \<noteq> Some True
               then (Inl (HTTPException 400 Inactive_user), s)
               else (Inr usr, s)))"

definition require_admin :: "user \<Rightarrow> exn + user" where
  "require_admin current_user =
     (if u_role current_user \<noteq> Some ''admin''
      then Inl (HTTPException 403 Not_enough_permissions)
      else Inr current_user)"

text \<open>
  A route that declares \<^verbatim>\<open>Depends(require_admin)\<close>: the framework first evaluates the
  dependency of \<^verbatim>\<open>require_admin\<close>, which is \<^verbatim>\<open>get_current_user\<close>, and calls
  \<^verbatim>\<open>require_admin\<close> with its result; an exception of the inner dependency ends the request.
\<close>

definition depends_require_admin ::
    "(string \<Rightarrow> claims \<Rightarrow> string) \<Rightarrow> int \<Rightarrow> token \<Rightarrow> session \<Rightarrow> (exn + user) \<times> session" where
  "depends_require_admin hs256 now tok s =
     (case get_current_user hs256 now tok s of
        (Inl e, s') \<Rightarrow> (Inl e, s')
      | (Inr current_user, s') \<Rightarrow> (require_admin current_user, s'))"

section \<open>Registration (main.py)\<close>

text \<open>The two queries of \<^verbatim>\<open>register_user\<close> that precede its \<^verbatim>\<open>try\<close> block.\<close>

definition register_user_checks :: "UserCreate \<Rightarrow> session \<Rightarrow> exn option" where
  "register_user_checks usr s =
     (case first (\<lambda>u. u_username u = uc_username usr) (users (store s)) of
        Some existing_user \<Rightarrow> Some (HTTPException 400 Username_registered)
      | None \<Rightarrow>
          (case first (\<lambda>u. u_email u = uc_email usr) (users (store s)) of
             Some existing_email \<Rightarrow> Some (HTTPException 400 Email_registered)
           | None \<Rightarrow> None))"

text \<open>The \<^verbatim>\<open>try\<close> block of \<^verbatim>\<open>register_user\<close> with its handlers.\<close>

definition register_user_insert ::
    "bcrypt \<Rightarrow> string \<Rightarrow> UserCreate \<Rightarrow> session \<Rightarrow> (exn + user) \<times> session" where
  "register_user_insert lib salt usr s =
     (case hash_password lib salt (uc_password usr) of
        Inl e \<Rightarrow> (Inl (HTTPException 500 (Unexpected_error (str_exn e))), rollback s)
      | Inr hashed_pwd \<Rightarrow>
          (case commit (add (Add_user usr hashed_pwd) s) of
             (Inr u, s') \<Rightarrow>
               (case refresh (users (store s')) of
                  Inr db_user \<Rightarrow> (Inr db_user, s')
                | Inl e \<Rightarrow>
                    (Inl (HTTPException 500 (Unexpected_error (str_exn e))), rollback s'))
           | (Inl (IntegrityError m), s') \<Rightarrow>
               (let s'' = rollback s'; error_message = lower m in
                if str_in ''username'' error_message
                then (Inl (HTTPException 400 Username_exists), s'')
                else if str_in ''email'' error_message
                then (Inl (HTTPException 400 Email_exists), s'')
                else (Inl (HTTPException 400 (Constraint_violation m)), s''))
           | (Inl e, s') \<Rightarrow>
               (Inl (HTTPException 500 (Unexpected_error (str_exn e))), rollback s')))"

definition register_user ::
    "bcrypt \<Rightarrow> string \<Rightarrow> UserCreate \<Rightarrow> session \<Rightarrow> (exn + user) \<times> session" where
  "register_user lib salt usr s =
     (case register_user_checks usr s of
        Some e \<Rightarrow> (Inl e, s)
      | None \<Rightarrow> register_user_insert lib salt usr s)"

section \<open>Requests\<close>

text \<open>
  \<^verbatim>\<open>get_db\<close> of \<^verbatim>\<open>database.py\<close>: every request runs its handler on a session of its
  own and closes it afterwards, whatever the handler did; what is left is the store. The
  model of a request ends where the handler returns or raises: what the framework does
  with the returned object is not part of it.
\<close>

definition get_db :: "(session \<Rightarrow> 'r \<times> session) \<Rightarrow> db \<Rightarrow> 'r \<times> db" where
  "get_db handler d = (case handler (SessionLocal d) of (r, s) \<Rightarrow> (r, store s))"

text \<open>
  The routes of \<^verbatim>\<open>main.py\<close> that write, each with its path parameters and its body. A
  registration carries the salt that \<^verbatim>\<open>bcrypt.gensalt()\<close> returns in it.
\<close>

datatype request =
    POST_clinics ClinicCreate
  | PUT_clinic int "clinic_attr list"
  | DELETE_clinic int
  | POST_doctors int DoctorCreate
  | PUT_doctor int int "doctor_attr list"
  | DELETE_doctor int int
  | POST_patients int PatientCreate
  | PUT_patient int int "patient_attr list"
  | DELETE_patient int int
  | POST_consultation int int int PatientConsultationCreate
  | POST_register string UserCreate

text \<open>The exception a request ended with, if any, and the store after it.\<close>

definition outcome :: "(exn + 'a) \<times> db \<Rightarrow> exn option \<times> db" where
  "outcome x = (case x of (Inl e, d) \<Rightarrow> (Some e, d) | (Inr v, d) \<Rightarrow> (None, d))"

fun run :: "bcrypt \<Rightarrow> request \<Rightarrow> db \<Rightarrow> exn option \<times> db" where
  "run lib (POST_clinics b) d = outcome (get_db (create_clinic b) d)"
| "run lib (PUT_clinic cid upd) d = outcome (get_db (update_clinic cid upd) d)"
| "run lib (DELETE_clinic cid) d = outcome (get_db (delete_clinic cid) d)"
| "run lib (POST_doctors cid b) d = outcome (get_db (create_doctor cid b) d)"
| "run lib (PUT_doctor cid did upd) d = outcome (get_db (update_doctor cid did upd) d)"
| "run lib (DELETE_doctor cid did) d = outcome (get_db (delete_doctor cid did) d)"
| "run lib (POST_patients cid b) d = outcome (get_db (create_patient cid b) d)"
| "run lib (PUT_patient cid pid upd) d = outcome (get_db (update_patient cid pid upd) d)"
| "run lib (DELETE_patient cid pid) d = outcome (get_db (delete_patient cid pid) d)"
| "run lib (POST_consultation cid did pid b) d =
     outcome (get_db (create_doctor_patient_consultation cid did pid b) d)"
| "run lib (POST_register salt b) d = outcome (get_db (register_user lib salt b) d)"

definition serve :: "bcrypt \<Rightarrow> request \<Rightarrow> db \<Rightarrow> db" where
  "serve lib r d = snd (run lib r d)"

definition empty_db :: db where
  "empty_db = \<lparr>clinics = [], doctors = [], patients = [], consultations = [], users = []\<rparr>"

text \<open>
  The stores that the routes produce from the empty database, one request after the
  other.
\<close>

inductive reachable :: "bcrypt \<Rightarrow> db \<Rightarrow> bool" for lib where
  start: "reachable lib empty_db"
| step: "reachable lib d \<Longrightarrow> reachable lib (serve lib r d)"



text \<open>What a handler can leave in the store: what it found, or one flush of changes.\<close>

definition flushed :: "db \<Rightarrow> change list \<Rightarrow> db \<Rightarrow> bool" where
  "flushed d cs d' = (d' = d \<or> flush cs d = Inr d')"


fun is_add_user :: "change \<Rightarrow> bool" where
  "is_add_user (Add_user b h) = True"
| "is_add_user c = False"

section \<open>Sample data\<close>

text \<open>
  Two clinics; doctor 5 belongs to clinic 2; doctor 7, who is inactive, belongs to clinic 1,
  as do patients 3 and 4.
\<close>

definition clinic1 :: clinic where
  "clinic1 = \<lparr>c_clinic_id = 1, c_clinic_name = ''Apollo'', c_address = Some ''Hyderabad'',
              c_mobile = ''9876543210'', c_status = Some ''active''\<rparr>"

definition clinic2 :: clinic where
  "clinic2 = \<lparr>c_clinic_id = 2, c_clinic_name = ''KIMS'', c_address = Some ''Gachibowli'',
              c_mobile = ''9876543211'', c_status = Some ''active''\<rparr>"

definition doctor5 :: doctor where
  "doctor5 = \<lparr>d_doctor_id = 5, d_doctor_name = ''Rao'', d_mobile = ''9000000005'',
              d_email = Some ''rao@example.org'', d_address = Some ''BHEL'',
              d_specialization = Some ''ENT'', d_status = Some ''active'', d_clinic_id = 2\<rparr>"

definition db0 :: db where
  "db0 = \<lparr>clinics = [clinic1, clinic2], doctors = [doctor5], patients = [],
          consultations = [], users = []\<rparr>"


definition doctor7 :: doctor where
  "doctor7 = \<lparr>d_doctor_id = 7, d_doctor_name = ''Iyer'', d_mobile = ''9000000007'',
              d_email = Some ''iyer@example.org'', d_address = Some ''Sun City'',
              d_specialization = Some ''Cardiology'', d_status = Some ''inactive'', d_clinic_id = 1\<rparr>"

definition patient3 :: patient where
  "patient3 = \<lparr>p_patient_id = 3, p_patient_name = ''Ravi'', p_mobile = ''9222222223'',
               p_age = Some 41, p_gender = Some ''M'', p_status = Some ''active'',
               p_clinic_id = 1, p_doctor_id = 7, p_doctor_name = ''Iyer''\<rparr>"

definition patient4 :: patient where
  "patient4 = \<lparr>p_patient_id = 4, p_patient_name = ''Uma'', p_mobile = ''9222222224'',
               p_age = Some 29, p_gender = Some ''F'', p_status = Some ''inactive'',
               p_clinic_id = 1, p_doctor_id = 7, p_doctor_name = ''Iyer''\<rparr>"

definition db1 :: db where
  "db1 = \<lparr>clinics = [clinic1, clinic2], doctors = [doctor5, doctor7],
          patients = [patient3, patient4], consultations = [], users = []\<rparr>"

definition consultation_body :: PatientConsultationCreate where
  "consultation_body = \<lparr>pcc_is_primary = True, pcc_consultation_date = 1700000000000000,
       pcc_status = ''active''\<rparr>"

text \<open>
  Two users: alice, and bob, an administrator whose account is inactive. Two registration
  requests for the username alice with different e-mail addresses, a request for a clinic
  with the mobile number of clinic 1, and a request for a doctor.
\<close>

definition user_alice :: user where
  "user_alice = \<lparr>u_user_id = 1, u_username = ''alice'', u_email = ''alice@example.org'',
       u_hashed_password = ''$2b$12$abcdefghijklmnopqrstuvDIGEST'', u_full_name = Some ''Alice'',
       u_role = Some ''user'', u_is_active = Some True\<rparr>"

definition user_bob :: user where
  "user_bob = \<lparr>u_user_id = 2, u_username = ''bob'', u_email = ''bob@example.org'',
       u_hashed_password = ''$2b$12$abcdefghijklmnopqrstuvDIGEST'', u_full_name = None,
       u_role = Some ''admin'', u_is_active = Some False\<rparr>"

definition db2 :: db where
  "db2 = \<lparr>clinics = [], doctors = [], patients = [], consultations = [],
          users = [user_alice, user_bob]\<rparr>"

definition alice :: UserCreate where
  "alice = \<lparr>uc_username = ''alice'', uc_email = ''alice@example.org'',
       uc_full_name = Some ''Alice'', uc_password = ''secret123''\<rparr>"

definition alice_again :: UserCreate where
  "alice_again = \<lparr>uc_username = ''alice'', uc_email = ''alice2@example.org'',
       uc_full_name = None, uc_password = ''secret456''\<rparr>"



text \<open>The store after the request for the clinic, and after the request for a doctor of it.\<close>

definition db_clinic :: db where
  "db_clinic = empty_db\<lparr>clinics := [\<lparr>c_clinic_id = 1, c_clinic_name = ''Medunited'',
       c_address = Some ''Sun City'', c_mobile = ''9876543210'', c_status = Some ''active''\<rparr>]\<rparr>"


text \<open>
  Stand-ins for the two packages, used only where a statement needs a concrete one: a
  signature that is the key, a bcrypt whose digest is the reversed password, and a bcrypt
  whose digest has 31 bytes, as the digest of the package has.
\<close>

definition hs_const :: "string \<Rightarrow> claims \<Rightarrow> string" where
  "hs_const key payload = key"

definition bcrypt_toy :: bcrypt where
  "bcrypt_toy = \<lparr>accepts = (\<lambda>s. take 4 s = ''$2b$''),
                  digest = (\<lambda>s k. rev k),
                  refuses = (\<lambda>p. if 72 < length p then Some ''password cannot be longer than 72 bytes'' else None)\<rparr>"

definition bcrypt_fixed :: bcrypt where
  "bcrypt_fixed = \<lparr>accepts = (\<lambda>s. take 4 s = ''$2b$''),
                   digest = (\<lambda>s k. take 31 (k @ replicate 31 (CHR ''.''))),
                   refuses = (\<lambda>p. None)\<rparr>"

section \<open>Queries, commits and rollbacks\<close>

lemma first_None_iff: "(first P rows = None) = (\<forall>r\<in>set rows. \<not> P r)"
proof -
  have "(first P rows = None) = (filter P rows = [])"
    by (simp add: first_def split: list.splits)
  then show ?thesis by (simp add: filter_empty_conv)
qed

lemma first_SomeD: "first P rows = Some r \<Longrightarrow> r \<in> set rows \<and> P r"
proof -
  assume "first P rows = Some r"
  then obtain rs where "filter P rows = r # rs"
    by (auto simp: first_def split: list.splits)
  then have "r \<in> set (filter P rows)" by simp
  then show ?thesis by simp
qed

lemma first_by_id:
  "(first (\<lambda>r. f r = (i::int)) rows = None) = (i \<notin> set (map f rows))"
  by (auto simp: first_None_iff)

lemma store_SessionLocal: "store (SessionLocal d) = d"
  by (simp add: SessionLocal_def)

lemma commit_add:
  "commit (add c (SessionLocal d)) =
     (case flush1 c d of
        Inl e \<Rightarrow> (Inl e, \<lparr>store = d, pending = [], inactive = True\<rparr>)
      | Inr d' \<Rightarrow> (Inr (), SessionLocal d'))"
  by (simp add: commit_def add_def SessionLocal_def split: sum.splits)

lemma commit_delete:
  "commit (delete c (SessionLocal d)) =
     (case flush1 c d of
        Inl e \<Rightarrow> (Inl e, \<lparr>store = d, pending = [], inactive = True\<rparr>)
      | Inr d' \<Rightarrow> (Inr (), SessionLocal d'))"
  by (simp add: commit_def delete_def SessionLocal_def split: sum.splits)

lemma rollback_pending:
  "rollback \<lparr>store = d, pending = cs, inactive = b\<rparr> = SessionLocal d"
  by (simp add: rollback_def SessionLocal_def)

lemma rollback_store: "store s = d \<Longrightarrow> rollback s = SessionLocal d"
  by (cases s) (simp add: rollback_def SessionLocal_def)

lemma rollback_failed:
  "store s = d \<Longrightarrow> rollback (s\<lparr>pending := [], inactive := True\<rparr>) = SessionLocal d"
  by (cases s) (simp add: rollback_def SessionLocal_def)

lemma store_rollback: "store (rollback s) = store s"
  by (simp add: rollback_def)

lemma store_foldl_setattr:
  "store (foldl (\<lambda>t a. setattr (f a) t) s as) = store s"
  by (induction as arbitrary: s) (simp_all add: setattr_def)

lemma pending_foldl_setattr:
  "pending (foldl (\<lambda>t a. setattr (f a) t) s as) = pending s @ map f as"
  by (induction as arbitrary: s) (simp_all add: setattr_def)

lemma commit_cases:
  "commit s = (r, s') \<Longrightarrow>
     (\<exists>e. r = Inl e \<and> store s' = store s)
     \<or> (r = Inr () \<and> flush (pending s) (store s) = Inr (store s'))"
  by (auto simp: commit_def split: sum.splits)

text \<open>
  Every exception of a flush is an \<^verbatim>\<open>IntegrityError\<close>.
\<close>

lemma flush1_integrity:
  "flush1 c d = Inl e \<Longrightarrow> \<exists>m. e = IntegrityError m"
  by (cases c)
     (auto simp: flush1_def set_clinic_attr_def set_doctor_attr_def set_patient_attr_def
           split: if_splits option.splits sum.splits clinic_attr.splits doctor_attr.splits
             patient_attr.splits)

lemma flush_integrity:
  "flush cs d = Inl e \<Longrightarrow> \<exists>m. e = IntegrityError m"
proof (induction cs arbitrary: d)
  case Nil
  then show ?case by simp
next
  case (Cons c cs)
  show ?case
  proof (cases "flush1 c d")
    case (Inl x)
    with Cons.prems have "x = e" by simp
    with Inl show ?thesis using flush1_integrity by blast
  next
    case (Inr d1)
    with Cons.prems have "flush cs d1 = Inl e" by simp
    then show ?thesis by (rule Cons.IH)
  qed
qed

lemma commit_split:
  obtains m where "commit s = (Inl (IntegrityError m), s\<lparr>pending := [], inactive := True\<rparr>)"
  | d' where "flush (pending s) (store s) = Inr d'"
      and "commit s = (Inr (), SessionLocal d')"
proof (cases "flush (pending s) (store s)")
  case (Inl e)
  then obtain m where "e = IntegrityError m" using flush_integrity by blast
  with Inl have "commit s = (Inl (IntegrityError m), s\<lparr>pending := [], inactive := True\<rparr>)"
    by (simp add: commit_def)
  then show ?thesis using that(1) by blast
next
  case (Inr d')
  then have "commit s = (Inr (), SessionLocal d')" by (simp add: commit_def SessionLocal_def)
  with Inr show ?thesis using that(2) by blast
qed

lemma outcome_get_db:
  "fst (outcome (get_db h d)) = Some e \<Longrightarrow> fst (h (SessionLocal d)) = Inl e"
  "snd (outcome (get_db h d)) = store (snd (h (SessionLocal d)))"
  by (auto simp: outcome_def get_db_def split: prod.splits sum.splits)

lemma serve_simps:
  "serve lib (POST_clinics b) d = store (snd (create_clinic b (SessionLocal d)))"
  "serve lib (PUT_clinic cid cupd) d = store (snd (update_clinic cid cupd (SessionLocal d)))"
  "serve lib (DELETE_clinic cid) d = store (snd (delete_clinic cid (SessionLocal d)))"
  "serve lib (POST_doctors cid db) d = store (snd (create_doctor cid db (SessionLocal d)))"
  "serve lib (PUT_doctor cid did dupd) d = store (snd (update_doctor cid did dupd (SessionLocal d)))"
  "serve lib (DELETE_doctor cid did) d = store (snd (delete_doctor cid did (SessionLocal d)))"
  "serve lib (POST_patients cid pb) d = store (snd (create_patient cid pb (SessionLocal d)))"
  "serve lib (PUT_patient cid pid pupd) d = store (snd (update_patient cid pid pupd (SessionLocal d)))"
  "serve lib (DELETE_patient cid pid) d = store (snd (delete_patient cid pid (SessionLocal d)))"
  "serve lib (POST_consultation cid did pid cb) d =
     store (snd (create_doctor_patient_consultation cid did pid cb (SessionLocal d)))"
  "serve lib (POST_register salt ub) d = store (snd (register_user lib salt ub (SessionLocal d)))"
  by (simp_all add: serve_def outcome_get_db)

section \<open>What a handler leaves in the store\<close>

lemma store_create_clinic:
  "flushed d [Add_clinic b] (store (snd (create_clinic b (SessionLocal d))))"
  by (auto simp: flushed_def create_clinic_def commit_add store_SessionLocal store_rollback Let_def
           split: sum.splits exn.splits)

lemma store_update_clinic:
  "\<exists>i. flushed d (map (Setattr_clinic i) upd) (store (snd (update_clinic cid upd (SessionLocal d))))"
proof (cases "first (\<lambda>c. c_clinic_id c = cid) (clinics d)")
  case None
  then show ?thesis by (simp add: flushed_def update_clinic_def store_SessionLocal)
next
  case (Some c)
  let ?s1 = "foldl (\<lambda>t a. setattr (Setattr_clinic (c_clinic_id c) a) t) (SessionLocal d) upd"
  have st: "store ?s1 = d" by (simp add: store_foldl_setattr store_SessionLocal)
  have pe: "pending ?s1 = map (Setattr_clinic (c_clinic_id c)) upd"
    by (simp add: pending_foldl_setattr SessionLocal_def)
  obtain r s2 where cm: "commit ?s1 = (r, s2)" by (cases "commit ?s1")
  from commit_cases [OF cm] st pe
  have "flushed d (map (Setattr_clinic (c_clinic_id c)) upd) (store s2)"
    by (auto simp: flushed_def)
  moreover have "store (snd (update_clinic cid upd (SessionLocal d))) = store s2"
    using Some cm
    by (simp add: update_clinic_def store_SessionLocal store_rollback Let_def
          split: sum.splits exn.splits option.splits)
  ultimately show ?thesis by auto
qed

lemma store_delete_clinic:
  "flushed d [Delete_clinic cid] (store (snd (delete_clinic cid (SessionLocal d))))"
proof (cases "first (\<lambda>c. c_clinic_id c = cid) (clinics d)")
  case None
  then show ?thesis by (simp add: flushed_def delete_clinic_def store_SessionLocal)
next
  case (Some c)
  then have "c_clinic_id c = cid" by (auto dest: first_SomeD)
  with Some show ?thesis
    by (auto simp: flushed_def delete_clinic_def commit_delete store_SessionLocal store_rollback
          Let_def split: sum.splits exn.splits)
qed

lemma store_create_doctor:
  "flushed d [Add_doctor b cid] (store (snd (create_doctor cid b (SessionLocal d))))"
  by (auto simp: flushed_def create_doctor_def commit_add store_SessionLocal store_rollback Let_def
           split: sum.splits exn.splits option.splits)

lemma store_update_doctor:
  "\<exists>i. flushed d (map (Setattr_doctor i) upd) (store (snd (update_doctor cid did upd (SessionLocal d))))"
proof (cases "first (\<lambda>c. c_clinic_id c = cid) (clinics d)")
  case None
  then show ?thesis by (simp add: flushed_def update_doctor_def store_SessionLocal)
next
  case c: (Some c)
  show ?thesis
  proof (cases "first (\<lambda>x. d_clinic_id x = cid \<and> d_doctor_id x = did) (doctors d)")
    case None
    with c show ?thesis by (simp add: flushed_def update_doctor_def store_SessionLocal)
  next
    case (Some x)
    let ?s1 = "foldl (\<lambda>t a. setattr (Setattr_doctor (d_doctor_id x) a) t) (SessionLocal d) upd"
    have st: "store ?s1 = d" by (simp add: store_foldl_setattr store_SessionLocal)
    have pe: "pending ?s1 = map (Setattr_doctor (d_doctor_id x)) upd"
      by (simp add: pending_foldl_setattr SessionLocal_def)
    obtain r s2 where cm: "commit ?s1 = (r, s2)" by (cases "commit ?s1")
    from commit_cases [OF cm] st pe
    have "flushed d (map (Setattr_doctor (d_doctor_id x)) upd) (store s2)"
      by (auto simp: flushed_def)
    moreover have "store (snd (update_doctor cid did upd (SessionLocal d))) = store s2"
      using c Some cm
      by (simp add: update_doctor_def store_SessionLocal store_rollback Let_def
            split: sum.splits exn.splits option.splits)
    ultimately show ?thesis by auto
  qed
qed

lemma store_delete_doctor:
  "flushed d [Delete_doctor did] (store (snd (delete_doctor cid did (SessionLocal d))))"
proof (cases "first (\<lambda>x. d_clinic_id x = cid \<and> d_doctor_id x = did) (doctors d)")
  case None
  then show ?thesis
    by (simp add: flushed_def delete_doctor_def store_SessionLocal split: option.splits)
next
  case (Some x)
  then have "d_doctor_id x = did" by (auto dest: first_SomeD)
  with Some show ?thesis
    by (auto simp: flushed_def delete_doctor_def commit_delete store_SessionLocal store_rollback
          Let_def split: sum.splits exn.splits option.splits)
qed

lemma store_create_patient:
  "flushed d [Add_patient b cid] (store (snd (create_patient cid b (SessionLocal d))))"
  by (auto simp: flushed_def create_patient_def commit_add store_SessionLocal store_rollback Let_def
           split: sum.splits exn.splits option.splits)

lemma store_update_patient:
  "\<exists>i. flushed d (map (Setattr_patient i) upd) (store (snd (update_patient cid pid upd (SessionLocal d))))"
proof (cases "first (\<lambda>c. c_clinic_id c = cid) (clinics d)")
  case None
  then show ?thesis by (simp add: flushed_def update_patient_def store_SessionLocal)
next
  case c: (Some c)
  show ?thesis
  proof (cases "first (\<lambda>p. p_clinic_id p = cid \<and> p_patient_id p = pid) (patients d)")
    case None
    with c show ?thesis by (simp add: flushed_def update_patient_def store_SessionLocal)
  next
    case (Some x)
    let ?s1 = "foldl (\<lambda>t a. setattr (Setattr_patient (p_patient_id x) a) t) (SessionLocal d) upd"
    have st: "store ?s1 = d" by (simp add: store_foldl_setattr store_SessionLocal)
    have pe: "pending ?s1 = map (Setattr_patient (p_patient_id x)) upd"
      by (simp add: pending_foldl_setattr SessionLocal_def)
    obtain r s2 where cm: "commit ?s1 = (r, s2)" by (cases "commit ?s1")
    from commit_cases [OF cm] st pe
    have "flushed d (map (Setattr_patient (p_patient_id x)) upd) (store s2)"
      by (auto simp: flushed_def)
    moreover have "store (snd (update_patient cid pid upd (SessionLocal d))) = store s2"
      using c Some cm
      by (simp add: update_patient_def store_SessionLocal Let_def
            split: sum.splits exn.splits option.splits)
    ultimately show ?thesis by auto
  qed
qed

lemma store_delete_patient:
  "flushed d [Delete_patient pid] (store (snd (delete_patient cid pid (SessionLocal d))))"
proof (cases "first (\<lambda>p. p_clinic_id p = cid \<and> p_patient_id p = pid) (patients d)")
  case None
  then show ?thesis
    by (simp add: flushed_def delete_patient_def store_SessionLocal split: option.splits)
next
  case (Some x)
  then have "p_patient_id x = pid" by (auto dest: first_SomeD)
  with Some show ?thesis
    by (auto simp: flushed_def delete_patient_def commit_delete store_SessionLocal
          Let_def split: sum.splits exn.splits option.splits)
qed

lemma store_create_consultation:
  "store (snd (create_doctor_patient_consultation cid did pid b (SessionLocal d))) = d
   \<or> ((\<exists>x \<in> set (doctors d). d_doctor_id x = did \<and> d_clinic_id x = cid)
       \<and> flush1 (Add_consultation b cid pid did) d =
            Inr (store (snd (create_doctor_patient_consultation cid did pid b (SessionLocal d)))))"
proof (cases "first (\<lambda>x. d_doctor_id x = did \<and> d_clinic_id x = cid) (doctors d)")
  case None
  then show ?thesis
    by (simp add: create_doctor_patient_consultation_def store_SessionLocal split: option.splits)
next
  case (Some x)
  then have "\<exists>x \<in> set (doctors d). d_doctor_id x = did \<and> d_clinic_id x = cid"
    by (auto dest: first_SomeD)
  then show ?thesis
    by (auto simp: create_doctor_patient_consultation_def commit_add store_SessionLocal
          store_rollback Let_def split: sum.splits exn.splits option.splits)
qed


section \<open>Reachable stores are consistent\<close>
















section \<open>Deleting a clinic\<close>



text \<open>
  Reachability matters: in a store where a consultation refers to a clinic that has no
  doctor and no patient, the guards pass and the flush of the delete fails.
\<close>

lemma orphan_consultation_blocks_delete:
  "delete_clinic 1 (SessionLocal (db_clinic\<lparr>consultations :=
       [\<lparr>pc_consultation_id = 1, pc_is_primary = Some True, pc_consultation_date = None,
         pc_status = Some ''active'', pc_clinic_id = 1, pc_patient_id = 9, pc_doctor_id = 9\<rparr>]\<rparr>)) =
     (Inl (HTTPException 400 Clinic_related_records),
      SessionLocal (db_clinic\<lparr>consultations :=
       [\<lparr>pc_consultation_id = 1, pc_is_primary = Some True, pc_consultation_date = None,
         pc_status = Some ''active'', pc_clinic_id = 1, pc_patient_id = 9, pc_doctor_id = 9\<rparr>]\<rparr>))"
  by (simp add: delete_clinic_def store_SessionLocal first_def count_def db_clinic_def empty_db_def
        commit_delete flush1_def rollback_pending)

section \<open>Listing the doctors and patients of a clinic\<close>

text \<open>
  Claim C10. For an existing clinic without doctors, \<^verbatim>\<open>get_doctors_by_clinic\<close> raises
  the 404 error "No doctors found" and does not return the empty list; likewise
  \<^verbatim>\<open>get_patients_by_clinic\<close> for an existing clinic without patients.
\<close>

theorem list_empty_not_found:
  "(first (\<lambda>c. c_clinic_id c = cid) (clinics d) \<noteq> None
      \<and> count (\<lambda>x. d_clinic_id x = cid) (doctors d) = 0
    \<longrightarrow> get_doctors_by_clinic cid (SessionLocal d) = Inl (HTTPException 404 (No_doctors_found cid)))
   \<and> (first (\<lambda>c. c_clinic_id c = cid) (clinics d) \<noteq> None
      \<and> count (\<lambda>p. p_clinic_id p = cid) (patients d) = 0
    \<longrightarrow> get_patients_by_clinic cid (SessionLocal d) = Inl (HTTPException 404 (No_patients_found cid)))"
  by (auto simp: get_doctors_by_clinic_def get_patients_by_clinic_def SessionLocal_def count_def)

theorem list_empty_not_found_witness:
  "first (\<lambda>c. c_clinic_id c = 1) (clinics db0) \<noteq> None
   \<and> count (\<lambda>x. d_clinic_id x = 1) (doctors db0) = 0
   \<and> count (\<lambda>p. p_clinic_id p = 1) (patients db0) = 0
   \<and> get_doctors_by_clinic 1 (SessionLocal db0) = Inl (HTTPException 404 (No_doctors_found 1))
   \<and> get_patients_by_clinic 1 (SessionLocal db0) = Inl (HTTPException 404 (No_patients_found 1))"
proof -
  have a1: "first (\<lambda>c. c_clinic_id c = 1) (clinics db0) \<noteq> None"
    by (simp add: first_def db0_def clinic1_def clinic2_def)
  have b1: "count (\<lambda>x. d_clinic_id x = 1) (doctors db0) = 0"
    by (simp add: count_def db0_def doctor5_def)
  have c1: "count (\<lambda>p. p_clinic_id p = 1) (patients db0) = 0"
    by (simp add: count_def db0_def)
  show ?thesis
    using list_empty_not_found [of 1 db0] a1 b1 c1 by simp
qed

section \<open>Failed calls\<close>

text \<open>
  A handler that wraps its commit in \<^verbatim>\<open>try\<close> and calls \<^verbatim>\<open>db.rollback()\<close> in the
  handlers of the exceptions ends a failed call with the session the request started
  with.
\<close>

lemma create_clinic_atomic:
  "fst (create_clinic b (SessionLocal d)) = Inl e \<Longrightarrow>
   snd (create_clinic b (SessionLocal d)) = SessionLocal d"
proof (cases "flush1 (Add_clinic b) d")
  case (Inl x)
  then obtain m where "x = IntegrityError m" using flush1_integrity by blast
  with Inl show ?thesis
    by (simp add: create_clinic_def commit_add rollback_pending Let_def)
next
  case (Inr d')
  then have "\<exists>r. refresh (clinics d') = Inr r"
    by (auto simp: flush1_def refresh_def split: if_splits)
  then obtain r where "refresh (clinics d') = Inr r" by blast
  with Inr show "fst (create_clinic b (SessionLocal d)) = Inl e \<Longrightarrow> ?thesis"
    by (simp add: create_clinic_def store_SessionLocal commit_add)
qed

lemma set_clinic_attr_id:
  "set_clinic_attr others r a = Inr r' \<Longrightarrow> c_clinic_id r' = c_clinic_id r"
  by (auto simp: set_clinic_attr_def split: clinic_attr.splits option.splits if_splits)

lemma flush1_setattr_clinic_ids:
  assumes "flush1 (Setattr_clinic i a) d = Inr d'"
  shows "map c_clinic_id (clinics d') = map c_clinic_id (clinics d)"
proof (cases "first (\<lambda>r. c_clinic_id r = i) (clinics d)")
  case None
  with assms show ?thesis by (simp add: flush1_def)
next
  case (Some r)
  then have i: "c_clinic_id r = i" by (auto dest: first_SomeD)
  from assms Some obtain r' where
    sp: "set_clinic_attr (filter (\<lambda>q. c_clinic_id q \<noteq> i) (clinics d)) r a = Inr r'"
    and d': "d' = d\<lparr>clinics := map (\<lambda>q. if c_clinic_id q = i then r' else q) (clinics d)\<rparr>"
    by (auto simp: flush1_def split: sum.splits)
  from sp have "c_clinic_id r' = i" using set_clinic_attr_id i by fastforce
  then show ?thesis by (simp add: d' comp_def cong: map_cong)
qed

lemma flush_setattr_clinic_ids:
  "flush (map (Setattr_clinic i) as) d = Inr d' \<Longrightarrow>
   map c_clinic_id (clinics d') = map c_clinic_id (clinics d)"
proof (induction as arbitrary: d)
  case Nil
  then show ?case by simp
next
  case (Cons a as)
  then obtain d1 where a: "flush1 (Setattr_clinic i a) d = Inr d1"
    and r: "flush (map (Setattr_clinic i) as) d1 = Inr d'"
    by (auto split: sum.splits)
  from Cons.IH [OF r] flush1_setattr_clinic_ids [OF a] show ?case by simp
qed

lemma update_clinic_atomic:
  assumes a: "fst (update_clinic cid upd (SessionLocal d)) = Inl e"
  shows "snd (update_clinic cid upd (SessionLocal d)) = SessionLocal d"
proof (cases "first (\<lambda>c. c_clinic_id c = cid) (clinics d)")
  case None
  then show ?thesis by (simp add: update_clinic_def store_SessionLocal)
next
  case (Some c)
  let ?s1 = "foldl (\<lambda>t a. setattr (Setattr_clinic (c_clinic_id c) a) t) (SessionLocal d) upd"
  have st: "store ?s1 = d" by (simp add: store_foldl_setattr store_SessionLocal)
  have pe: "pending ?s1 = map (Setattr_clinic (c_clinic_id c)) upd"
    by (simp add: pending_foldl_setattr SessionLocal_def)
  show ?thesis
  proof (cases ?s1 rule: commit_split)
    case (1 m)
    with Some show ?thesis
      by (simp add: update_clinic_def store_SessionLocal Let_def rollback_failed [OF st])
  next
    case (2 d')
    from Some have "c_clinic_id c \<in> set (map c_clinic_id (clinics d))"
      by (auto dest: first_SomeD)
    moreover from 2(1) have "map c_clinic_id (clinics d') = map c_clinic_id (clinics d)"
      using flush_setattr_clinic_ids by (simp add: st pe)
    ultimately have "first (\<lambda>q. c_clinic_id q = c_clinic_id c) (clinics d') \<noteq> None"
      by (simp add: first_by_id)
    then obtain c' where "first (\<lambda>q. c_clinic_id q = c_clinic_id c) (clinics d') = Some c'"
      by blast
    with Some 2(2) have "fst (update_clinic cid upd (SessionLocal d)) = Inr c'"
      by (simp add: update_clinic_def store_SessionLocal)
    with a show ?thesis by simp
  qed
qed

lemma delete_clinic_atomic:
  "fst (delete_clinic cid (SessionLocal d)) = Inl e \<Longrightarrow>
   snd (delete_clinic cid (SessionLocal d)) = SessionLocal d"
proof (cases "first (\<lambda>c. c_clinic_id c = cid) (clinics d)")
  case None
  then show ?thesis by (simp add: delete_clinic_def store_SessionLocal)
next
  case (Some c)
  show "fst (delete_clinic cid (SessionLocal d)) = Inl e \<Longrightarrow> ?thesis"
  proof (cases "flush1 (Delete_clinic (c_clinic_id c)) d")
    case (Inl x)
    then obtain m where "x = IntegrityError m" using flush1_integrity by blast
    with Inl Some show ?thesis
      by (simp add: delete_clinic_def store_SessionLocal commit_delete rollback_pending Let_def)
  next
    case (Inr d')
    with Some show "fst (delete_clinic cid (SessionLocal d)) = Inl e \<Longrightarrow> ?thesis"
      by (simp add: delete_clinic_def store_SessionLocal commit_delete Let_def split: if_splits)
  qed
qed

lemma create_doctor_atomic:
  "fst (create_doctor cid b (SessionLocal d)) = Inl e \<Longrightarrow>
   snd (create_doctor cid b (SessionLocal d)) = SessionLocal d"
proof (cases "flush1 (Add_doctor b cid) d")
  case (Inl x)
  then obtain m where "x = IntegrityError m" using flush1_integrity by blast
  with Inl show ?thesis
    by (simp add: create_doctor_def commit_add rollback_pending Let_def store_SessionLocal
          split: option.splits)
next
  case (Inr d')
  then have "\<exists>r. refresh (doctors d') = Inr r"
    by (auto simp: flush1_def refresh_def split: if_splits)
  then obtain r where "refresh (doctors d') = Inr r" by blast
  with Inr show "fst (create_doctor cid b (SessionLocal d)) = Inl e \<Longrightarrow> ?thesis"
    by (simp add: create_doctor_def store_SessionLocal commit_add split: option.splits)
qed

lemma set_doctor_attr_id:
  "set_doctor_attr others r a = Inr r' \<Longrightarrow> d_doctor_id r' = d_doctor_id r"
  by (auto simp: set_doctor_attr_def split: doctor_attr.splits option.splits if_splits)

lemma flush1_setattr_doctor_ids:
  assumes "flush1 (Setattr_doctor i a) d = Inr d'"
  shows "map d_doctor_id (doctors d') = map d_doctor_id (doctors d)"
proof (cases "first (\<lambda>r. d_doctor_id r = i) (doctors d)")
  case None
  with assms show ?thesis by (simp add: flush1_def)
next
  case (Some r)
  then have i: "d_doctor_id r = i" by (auto dest: first_SomeD)
  from assms Some obtain r' where
    sp: "set_doctor_attr (filter (\<lambda>q. d_doctor_id q \<noteq> i) (doctors d)) r a = Inr r'"
    and d': "d' = d\<lparr>doctors := map (\<lambda>q. if d_doctor_id q = i then r' else q) (doctors d)\<rparr>"
    by (auto simp: flush1_def split: sum.splits)
  from sp have "d_doctor_id r' = i" using set_doctor_attr_id i by fastforce
  then show ?thesis by (simp add: d' comp_def cong: map_cong)
qed

lemma flush_setattr_doctor_ids:
  "flush (map (Setattr_doctor i) as) d = Inr d' \<Longrightarrow>
   map d_doctor_id (doctors d') = map d_doctor_id (doctors d)"
proof (induction as arbitrary: d)
  case Nil
  then show ?case by simp
next
  case (Cons a as)
  then obtain d1 where a: "flush1 (Setattr_doctor i a) d = Inr d1"
    and r: "flush (map (Setattr_doctor i) as) d1 = Inr d'"
    by (auto split: sum.splits)
  from Cons.IH [OF r] flush1_setattr_doctor_ids [OF a] show ?case by simp
qed

lemma update_doctor_atomic:
  assumes a: "fst (update_doctor cid did upd (SessionLocal d)) = Inl e"
  shows "snd (update_doctor cid did upd (SessionLocal d)) = SessionLocal d"
proof (cases "first (\<lambda>c. c_clinic_id c = cid) (clinics d)")
  case None
  then show ?thesis by (simp add: update_doctor_def store_SessionLocal)
next
  case c: (Some c)
  show ?thesis
  proof (cases "first (\<lambda>x. d_clinic_id x = cid \<and> d_doctor_id x = did) (doctors d)")
    case None
    with c show ?thesis by (simp add: update_doctor_def store_SessionLocal)
  next
    case (Some x)
    let ?s1 = "foldl (\<lambda>t a. setattr (Setattr_doctor (d_doctor_id x) a) t) (SessionLocal d) upd"
    have st: "store ?s1 = d" by (simp add: store_foldl_setattr store_SessionLocal)
    have pe: "pending ?s1 = map (Setattr_doctor (d_doctor_id x)) upd"
      by (simp add: pending_foldl_setattr SessionLocal_def)
    show ?thesis
    proof (cases ?s1 rule: commit_split)
      case (1 m)
      with c Some show ?thesis
        by (simp add: update_doctor_def store_SessionLocal Let_def rollback_failed [OF st])
    next
      case (2 d')
      from Some have "d_doctor_id x \<in> set (map d_doctor_id (doctors d))"
        by (auto dest: first_SomeD)
      moreover from 2(1) have "map d_doctor_id (doctors d') = map d_doctor_id (doctors d)"
        using flush_setattr_doctor_ids by (simp add: st pe)
      ultimately have "first (\<lambda>q. d_doctor_id q = d_doctor_id x) (doctors d') \<noteq> None"
        by (simp add: first_by_id)
      then obtain x' where "first (\<lambda>q. d_doctor_id q = d_doctor_id x) (doctors d') = Some x'"
        by blast
      with c Some 2(2) have "fst (update_doctor cid did upd (SessionLocal d)) = Inr x'"
        by (simp add: update_doctor_def store_SessionLocal)
      with a show ?thesis by simp
    qed
  qed
qed

lemma delete_doctor_atomic:
  "fst (delete_doctor cid did (SessionLocal d)) = Inl e \<Longrightarrow>
   snd (delete_doctor cid did (SessionLocal d)) = SessionLocal d"
proof (cases "first (\<lambda>x. d_clinic_id x = cid \<and> d_doctor_id x = did) (doctors d)")
  case None
  then show ?thesis by (simp add: delete_doctor_def store_SessionLocal split: option.splits)
next
  case (Some x)
  show "fst (delete_doctor cid did (SessionLocal d)) = Inl e \<Longrightarrow> ?thesis"
  proof (cases "flush1 (Delete_doctor (d_doctor_id x)) d")
    case (Inl y)
    then obtain m where "y = IntegrityError m" using flush1_integrity by blast
    with Inl Some show ?thesis
      by (simp add: delete_doctor_def store_SessionLocal commit_delete rollback_pending Let_def
            split: option.splits)
  next
    case (Inr d')
    with Some show "fst (delete_doctor cid did (SessionLocal d)) = Inl e \<Longrightarrow> ?thesis"
      by (simp add: delete_doctor_def store_SessionLocal commit_delete Let_def
            split: if_splits option.splits)
  qed
qed

lemma create_patient_atomic:
  "fst (create_patient cid b (SessionLocal d)) = Inl e \<Longrightarrow>
   snd (create_patient cid b (SessionLocal d)) = SessionLocal d"
proof (cases "flush1 (Add_patient b cid) d")
  case (Inl x)
  then obtain m where "x = IntegrityError m" using flush1_integrity by blast
  with Inl show ?thesis
    by (simp add: create_patient_def store_SessionLocal commit_add rollback_pending Let_def
             split: option.splits)
next
  case (Inr d')
  then have "\<exists>r. refresh (patients d') = Inr r"
    by (auto simp: flush1_def refresh_def split: if_splits)
  then obtain r where "refresh (patients d') = Inr r" by blast
  with Inr show "fst (create_patient cid b (SessionLocal d)) = Inl e \<Longrightarrow> ?thesis"
    by (simp add: create_patient_def store_SessionLocal commit_add split: option.splits)
qed

lemma create_consultation_atomic:
  "fst (create_doctor_patient_consultation cid did pid b (SessionLocal d)) = Inl e \<Longrightarrow>
   snd (create_doctor_patient_consultation cid did pid b (SessionLocal d)) = SessionLocal d"
proof -
  obtain d' r where "flush1 (Add_consultation b cid pid did) d = Inr d'"
    and "refresh (consultations d') = Inr r"
    by (auto simp: flush1_def refresh_def)
  then show "fst (create_doctor_patient_consultation cid did pid b (SessionLocal d)) = Inl e \<Longrightarrow> ?thesis"
    by (simp add: create_doctor_patient_consultation_def store_SessionLocal commit_add
          split: option.splits if_splits)
qed

lemma register_user_atomic:
  "fst (register_user lib salt b (SessionLocal d)) = Inl e \<Longrightarrow>
   snd (register_user lib salt b (SessionLocal d)) = SessionLocal d"
proof (cases "hash_password lib salt (uc_password b)")
  case (Inl x)
  then show ?thesis
    by (simp add: register_user_def register_user_insert_def rollback_def SessionLocal_def
          split: option.splits)
next
  case h: (Inr h)
  show "fst (register_user lib salt b (SessionLocal d)) = Inl e \<Longrightarrow> ?thesis"
  proof (cases "flush1 (Add_user b h) d")
    case (Inl x)
    then obtain m where "x = IntegrityError m" using flush1_integrity by blast
    with Inl h show ?thesis
      by (simp add: register_user_def register_user_insert_def commit_add rollback_pending Let_def
            split: option.splits)
  next
    case (Inr d')
    then have "\<exists>r. refresh (users d') = Inr r"
      by (auto simp: flush1_def refresh_def split: if_splits)
    then obtain r where "refresh (users d') = Inr r" by blast
    with Inr h show "fst (register_user lib salt b (SessionLocal d)) = Inl e \<Longrightarrow> ?thesis"
      by (simp add: register_user_def register_user_insert_def store_SessionLocal commit_add
            split: option.splits)
  qed
qed

text \<open>
  \<^verbatim>\<open>update_patient\<close> and \<^verbatim>\<open>delete_patient\<close> have no \<^verbatim>\<open>try\<close>; when they fail, the
  store is as before all the same, since a failed flush writes nothing.
\<close>

lemma set_patient_attr_id:
  "set_patient_attr others r a = Inr r' \<Longrightarrow> p_patient_id r' = p_patient_id r"
  by (auto simp: set_patient_attr_def split: patient_attr.splits option.splits if_splits)

lemma flush1_setattr_patient_ids:
  assumes "flush1 (Setattr_patient i a) d = Inr d'"
  shows "map p_patient_id (patients d') = map p_patient_id (patients d)"
proof (cases "first (\<lambda>r. p_patient_id r = i) (patients d)")
  case None
  with assms show ?thesis by (simp add: flush1_def)
next
  case (Some r)
  then have i: "p_patient_id r = i" by (auto dest: first_SomeD)
  from assms Some obtain r' where
    sp: "set_patient_attr (filter (\<lambda>q. p_patient_id q \<noteq> i) (patients d)) r a = Inr r'"
    and d': "d' = d\<lparr>patients := map (\<lambda>q. if p_patient_id q = i then r' else q) (patients d)\<rparr>"
    by (auto simp: flush1_def split: sum.splits)
  from sp have "p_patient_id r' = i" using set_patient_attr_id i by fastforce
  then show ?thesis by (simp add: d' comp_def cong: map_cong)
qed

lemma flush_setattr_patient_ids:
  "flush (map (Setattr_patient i) as) d = Inr d' \<Longrightarrow>
   map p_patient_id (patients d') = map p_patient_id (patients d)"
proof (induction as arbitrary: d)
  case Nil
  then show ?case by simp
next
  case (Cons a as)
  then obtain d1 where a: "flush1 (Setattr_patient i a) d = Inr d1"
    and r: "flush (map (Setattr_patient i) as) d1 = Inr d'"
    by (auto split: sum.splits)
  from Cons.IH [OF r] flush1_setattr_patient_ids [OF a] show ?case by simp
qed

lemma update_patient_store:
  assumes a: "fst (update_patient cid pid upd (SessionLocal d)) = Inl e"
  shows "store (snd (update_patient cid pid upd (SessionLocal d))) = d"
proof (cases "first (\<lambda>c. c_clinic_id c = cid) (clinics d)")
  case None
  then show ?thesis by (simp add: update_patient_def store_SessionLocal)
next
  case c: (Some c)
  show ?thesis
  proof (cases "first (\<lambda>p. p_clinic_id p = cid \<and> p_patient_id p = pid) (patients d)")
    case None
    with c show ?thesis by (simp add: update_patient_def store_SessionLocal)
  next
    case (Some x)
    let ?s1 = "foldl (\<lambda>t a. setattr (Setattr_patient (p_patient_id x) a) t) (SessionLocal d) upd"
    have st: "store ?s1 = d" by (simp add: store_foldl_setattr store_SessionLocal)
    have pe: "pending ?s1 = map (Setattr_patient (p_patient_id x)) upd"
      by (simp add: pending_foldl_setattr SessionLocal_def)
    show ?thesis
    proof (cases ?s1 rule: commit_split)
      case (1 m)
      with c Some st show ?thesis
        by (simp add: update_patient_def store_SessionLocal Let_def)
    next
      case (2 d')
      from Some have "p_patient_id x \<in> set (map p_patient_id (patients d))"
        by (auto dest: first_SomeD)
      moreover from 2(1) have "map p_patient_id (patients d') = map p_patient_id (patients d)"
        using flush_setattr_patient_ids by (simp add: st pe)
      ultimately have "first (\<lambda>q. p_patient_id q = p_patient_id x) (patients d') \<noteq> None"
        by (simp add: first_by_id)
      then obtain x' where "first (\<lambda>q. p_patient_id q = p_patient_id x) (patients d') = Some x'"
        by blast
      with c Some 2(2) have "fst (update_patient cid pid upd (SessionLocal d)) = Inr x'"
        by (simp add: update_patient_def store_SessionLocal)
      with a show ?thesis by simp
    qed
  qed
qed

lemma delete_patient_store:
  "fst (delete_patient cid pid (SessionLocal d)) = Inl e \<Longrightarrow>
   store (snd (delete_patient cid pid (SessionLocal d))) = d"
  by (auto simp: delete_patient_def store_SessionLocal commit_delete
        split: option.splits sum.splits)

text \<open>
  So for every route that writes: when the request ends with an exception, the store
  after it is the store before it.
\<close>

lemma failed_request_keeps_store:
  assumes "fst (run lib r d) = Some e"
  shows "snd (run lib r d) = d"
proof (cases r)
  case (POST_clinics b)
  with assms show ?thesis
    using create_clinic_atomic by (fastforce simp: outcome_get_db store_SessionLocal)
next
  case (PUT_clinic cid upd)
  with assms show ?thesis
    using update_clinic_atomic by (fastforce simp: outcome_get_db store_SessionLocal)
next
  case (DELETE_clinic cid)
  with assms show ?thesis
    using delete_clinic_atomic by (fastforce simp: outcome_get_db store_SessionLocal)
next
  case (POST_doctors cid b)
  with assms show ?thesis
    using create_doctor_atomic by (fastforce simp: outcome_get_db store_SessionLocal)
next
  case (PUT_doctor cid did upd)
  with assms show ?thesis
    using update_doctor_atomic by (fastforce simp: outcome_get_db store_SessionLocal)
next
  case (DELETE_doctor cid did)
  with assms show ?thesis
    using delete_doctor_atomic by (fastforce simp: outcome_get_db store_SessionLocal)
next
  case (POST_patients cid b)
  with assms show ?thesis
    using create_patient_atomic by (fastforce simp: outcome_get_db store_SessionLocal)
next
  case (PUT_patient cid pid upd)
  with assms show ?thesis
    using update_patient_store by (fastforce simp: outcome_get_db)
next
  case (DELETE_patient cid pid)
  with assms show ?thesis
    using delete_patient_store by (fastforce simp: outcome_get_db)
next
  case (POST_consultation cid did pid b)
  with assms show ?thesis
    using create_consultation_atomic by (fastforce simp: outcome_get_db store_SessionLocal)
next
  case (POST_register salt b)
  with assms show ?thesis
    using register_user_atomic by (fastforce simp: outcome_get_db store_SessionLocal)
qed

theorem failed_request_keeps_store_witness:
  "run bcrypt_toy (PUT_patient 1 3 [Set_p_mobile (Some ''9222222224'')]) db1 =
     (Some (IntegrityError ''UNIQUE constraint failed: patients.mobile''), db1)"
proof -
  have c: "first (\<lambda>c. c_clinic_id c = 1) (clinics db1) = Some clinic1"
    by (simp add: first_def db1_def clinic1_def)
  have p: "first (\<lambda>p. p_clinic_id p = 1 \<and> p_patient_id p = 3) (patients db1) = Some patient3"
    by (simp add: first_def db1_def patient3_def)
  have p': "first (\<lambda>p. p_patient_id p = 3) (patients db1) = Some patient3"
    by (simp add: first_def db1_def patient3_def)
  have o: "filter (\<lambda>q. p_patient_id q \<noteq> 3) (patients db1) = [patient4]"
    by (simp add: db1_def patient3_def patient4_def)
  have f: "flush1 (Setattr_patient 3 (Set_p_mobile (Some ''9222222224''))) db1 =
      Inl (IntegrityError ''UNIQUE constraint failed: patients.mobile'')"
    by (simp add: flush1_def p' o set_patient_attr_def patient4_def)
  have s1: "setattr (Setattr_patient 3 (Set_p_mobile (Some ''9222222224''))) (SessionLocal db1) =
      \<lparr>store = db1, pending = [Setattr_patient 3 (Set_p_mobile (Some ''9222222224''))],
        inactive = False\<rparr>"
    by (simp add: setattr_def SessionLocal_def)
  have cm: "commit \<lparr>store = db1, pending = [Setattr_patient 3 (Set_p_mobile (Some ''9222222224''))],
        inactive = False\<rparr> =
      (Inl (IntegrityError ''UNIQUE constraint failed: patients.mobile''),
       \<lparr>store = db1, pending = [], inactive = True\<rparr>)"
    by (simp add: commit_def f)
  have id3: "p_patient_id patient3 = 3" by (simp add: patient3_def)
  have e: "fst (run bcrypt_toy (PUT_patient 1 3 [Set_p_mobile (Some ''9222222224'')]) db1) =
     Some (IntegrityError ''UNIQUE constraint failed: patients.mobile'')"
    by (simp add: outcome_def get_db_def update_patient_def store_SessionLocal c p id3 s1 cm)
  show ?thesis
    using e failed_request_keeps_store [OF e] by (simp add: prod_eq_iff)
qed



section \<open>Creating a patient\<close>




section \<open>Creating a consultation\<close>

lemma flush1_Add_consultation:
  "\<exists>d'. flush1 (Add_consultation b cid pid did) d = Inr d' \<and> (\<exists>r. refresh (consultations d') = Inr r)"
  by (simp add: flush1_def refresh_def)

lemma create_consultation_after_guards:
  "\<exists>r d'. (case commit (add (Add_consultation b cid pid did) (SessionLocal d)) of
         (Inr u, s') \<Rightarrow>
           (case refresh (consultations (store s')) of
              Inr db_consultation \<Rightarrow> (Inr db_consultation, s')
            | Inl e \<Rightarrow> (Inl (HTTPException 500 (Unexpected_error (str_exn e))), rollback s'))
       | (Inl (IntegrityError m), s') \<Rightarrow>
           (let s'' = rollback s'; error_message = lower m in
            if str_in ''foreign key'' error_message
            then (Inl (HTTPException 400 Invalid_reference), s'')
            else (Inl (HTTPException 400 (Constraint_violation m)), s''))
       | (Inl e, s') \<Rightarrow>
           (Inl (HTTPException 500 (Unexpected_error (str_exn e))), rollback s')) = (Inr r, SessionLocal d')"
proof -
  obtain d' r where "flush1 (Add_consultation b cid pid did) d = Inr d'"
    and "refresh (consultations d') = Inr r"
    using flush1_Add_consultation by blast
  then show ?thesis
    by (auto simp: commit_add store_SessionLocal)
qed

text \<open>
  Claim C5. \<^verbatim>\<open>create_doctor_patient_consultation\<close> returns a consultation if and only if
  the clinic exists, the doctor row found for this \<^verbatim>\<open>doctor_id\<close> and \<^verbatim>\<open>clinic_id\<close> has
  status \<^verbatim>\<open>active\<close> and the patient row found for this \<^verbatim>\<open>patient_id\<close> and
  \<^verbatim>\<open>clinic_id\<close> has status \<^verbatim>\<open>active\<close>. When clinic, doctor and patient are found and the
  doctor's status is not \<^verbatim>\<open>active\<close>, the call fails with the 400 error "Doctor is not
  active" (the specification's \<open>EntityInactive\<close>) whatever the patient's status is, and the
  session is as before.
\<close>

theorem create_consultation_guard:
  "((\<exists>r. fst (create_doctor_patient_consultation cid did pid b (SessionLocal d)) = Inr r) =
      (first (\<lambda>c. c_clinic_id c = cid) (clinics d) \<noteq> None
       \<and> (\<exists>doc. first (\<lambda>x. d_doctor_id x = did \<and> d_clinic_id x = cid) (doctors d) = Some doc
                 \<and> d_status doc = Some ''active'')
       \<and> (\<exists>pat. first (\<lambda>p. p_patient_id p = pid \<and> p_clinic_id p = cid) (patients d) = Some pat
                 \<and> p_status pat = Some ''active'')))
   \<and> (\<forall>doc pat. first (\<lambda>c. c_clinic_id c = cid) (clinics d) \<noteq> None
        \<and> first (\<lambda>x. d_doctor_id x = did \<and> d_clinic_id x = cid) (doctors d) = Some doc
        \<and> first (\<lambda>p. p_patient_id p = pid \<and> p_clinic_id p = cid) (patients d) = Some pat
        \<and> d_status doc \<noteq> Some ''active''
      \<longrightarrow> create_doctor_patient_consultation cid did pid b (SessionLocal d) =
            (Inl (HTTPException 400 (Doctor_not_active (d_status doc))), SessionLocal d))"
proof (cases "first (\<lambda>c. c_clinic_id c = cid) (clinics d)")
  case None
  then show ?thesis
    by (simp add: create_doctor_patient_consultation_def store_SessionLocal)
next
  case c: (Some cl)
  show ?thesis
  proof (cases "first (\<lambda>x. d_doctor_id x = did \<and> d_clinic_id x = cid) (doctors d)")
    case None
    with c show ?thesis
      by (simp add: create_doctor_patient_consultation_def store_SessionLocal)
  next
    case dc: (Some doc)
    show ?thesis
    proof (cases "first (\<lambda>p. p_patient_id p = pid \<and> p_clinic_id p = cid) (patients d)")
      case None
      with c dc show ?thesis
        by (simp add: create_doctor_patient_consultation_def store_SessionLocal)
    next
      case pt: (Some pat)
      obtain r d' where ok: "(case commit (add (Add_consultation b cid pid did) (SessionLocal d)) of
         (Inr u, s') \<Rightarrow>
           (case refresh (consultations (store s')) of
              Inr db_consultation \<Rightarrow> (Inr db_consultation, s')
            | Inl e \<Rightarrow> (Inl (HTTPException 500 (Unexpected_error (str_exn e))), rollback s'))
       | (Inl (IntegrityError m), s') \<Rightarrow>
           (let s'' = rollback s'; error_message = lower m in
            if str_in ''foreign key'' error_message
            then (Inl (HTTPException 400 Invalid_reference), s'')
            else (Inl (HTTPException 400 (Constraint_violation m)), s''))
       | (Inl e, s') \<Rightarrow>
           (Inl (HTTPException 500 (Unexpected_error (str_exn e))), rollback s')) = (Inr r, SessionLocal d')"
        using create_consultation_after_guards by blast
      from c dc pt show ?thesis
        unfolding create_doctor_patient_consultation_def
        by (simp add: store_SessionLocal ok del: split_paired_All split_paired_Ex)
    qed
  qed
qed

theorem create_consultation_guard_witness:
  "first (\<lambda>c. c_clinic_id c = 1) (clinics db1) \<noteq> None
   \<and> first (\<lambda>x. d_doctor_id x = 7 \<and> d_clinic_id x = 1) (doctors db1) = Some doctor7
   \<and> first (\<lambda>p. p_patient_id p = 3 \<and> p_clinic_id p = 1) (patients db1) = Some patient3
   \<and> d_status doctor7 \<noteq> Some ''active''
   \<and> create_doctor_patient_consultation 1 7 3 consultation_body (SessionLocal db1) =
        (Inl (HTTPException 400 (Doctor_not_active (Some ''inactive''))), SessionLocal db1)"
proof -
  have a: "first (\<lambda>c. c_clinic_id c = 1) (clinics db1) \<noteq> None"
    by (simp add: first_def db1_def clinic1_def)
  have b: "first (\<lambda>x. d_doctor_id x = 7 \<and> d_clinic_id x = 1) (doctors db1) = Some doctor7"
    by (simp add: first_def db1_def doctor5_def doctor7_def)
  have c: "first (\<lambda>p. p_patient_id p = 3 \<and> p_clinic_id p = 1) (patients db1) = Some patient3"
    by (simp add: first_def db1_def patient3_def)
  have e: "d_status doctor7 = Some ''inactive''"
    by (simp add: doctor7_def)
  show ?thesis
    using create_consultation_guard [of 1 7 3 consultation_body db1] a b c e
    by simp
qed

section \<open>Issuing and verifying a token\<close>

lemma jwt_roundtrip:
  "jwt_decode hs256 t (jwt_encode hs256 ((token_data username role)(''exp'' \<mapsto> JDatetime expire)) key) key =
     (if timegm expire < timegm t then Inl (JWTError ''Signature has expired.'')
      else Inr ((token_data username role)(''exp'' \<mapsto> JInt (timegm expire))))"
proof -
  have p: "(\<lambda>k. case ((token_data username role)(''exp'' \<mapsto> JDatetime expire)) k of
                 Some (JDatetime t) \<Rightarrow>
                   if k = ''exp'' \<or> k = ''iat'' \<or> k = ''nbf''
                   then Some (JInt (timegm t)) else Some (JDatetime t)
               | v \<Rightarrow> v) = (token_data username role)(''exp'' \<mapsto> JInt (timegm expire))"
    by (rule ext) (simp add: token_data_def)
  have enc: "jwt_encode hs256 ((token_data username role)(''exp'' \<mapsto> JDatetime expire)) key =
      Token ((token_data username role)(''exp'' \<mapsto> JInt (timegm expire)))
        (hs256 key ((token_data username role)(''exp'' \<mapsto> JInt (timegm expire))))"
    unfolding jwt_encode_def Let_def p by (rule refl)
  show ?thesis
    unfolding enc by (simp add: jwt_decode_def token_data_def)
qed

lemma verify_created:
  "verify_token hs256 t (jwt_encode hs256 ((token_data username role)(''exp'' \<mapsto> JDatetime expire)) SECRET_KEY) =
     (if timegm expire < timegm t then Inl (HTTPException 401 Could_not_validate)
      else Inr ((token_data username role)(''exp'' \<mapsto> JInt (timegm expire))))"
  by (simp add: verify_token_def jwt_roundtrip) (simp add: token_data_def)


lemma create_None:
  "create_access_token hs256 now data None =
     jwt_encode hs256 (data(''exp'' \<mapsto> JDatetime (now + timedelta_minutes 15))) SECRET_KEY"
  by (simp add: create_access_token_def)



text \<open>
  A \<^verbatim>\<open>timedelta\<close> of zero is false in \<^verbatim>\<open>if expires_delta:\<close>, so it gives the token of
  a call without \<^verbatim>\<open>expires_delta\<close>.
\<close>

lemma zero_ttl_is_default:
  "create_access_token hs256 now data (Some 0) = create_access_token hs256 now data None"
  by (simp add: create_access_token_def)




section \<open>The current user and the role\<close>

text \<open>
  Claim C6. \<^verbatim>\<open>get_current_user\<close> first verifies the token and fails with the error of
  \<^verbatim>\<open>verify_token\<close>; with a verified token it fails with the 401 error "User not Found"
  when no user row has the subject as username, and with the 400 error "Inactive user"
  when the row found is not active; otherwise it returns the row. A route that depends on
  \<^verbatim>\<open>require_admin\<close> fails with the error of \<^verbatim>\<open>get_current_user\<close> whenever that fails,
  and the role is looked at only when it returned a user: then the result is the 403 error
  when the role is not \<^verbatim>\<open>admin\<close>, else the user. \<^verbatim>\<open>get_current_user\<close> leaves the
  session as it was.
\<close>

theorem resolution_before_role:
  "(\<forall>e. verify_token hs256 now tok = Inl e
        \<longrightarrow> get_current_user hs256 now tok s = (Inl e, s))
   \<and> (\<forall>td. verify_token hs256 now tok = Inr td
          \<and> first (\<lambda>u. Some (JStr (u_username u)) = td ''sub'') (users (store s)) = None
        \<longrightarrow> get_current_user hs256 now tok s = (Inl (HTTPException 401 User_not_found), s))
   \<and> (\<forall>td usr. verify_token hs256 now tok = Inr td
          \<and> first (\<lambda>u. Some (JStr (u_username u)) = td ''sub'') (users (store s)) = Some usr
          \<and> u_is_active usr \<noteq> Some True
        \<longrightarrow> get_current_user hs256 now tok s = (Inl (HTTPException 400 Inactive_user), s))
   \<and> (\<forall>td usr. verify_token hs256 now tok = Inr td
          \<and> first (\<lambda>u. Some (JStr (u_username u)) = td ''sub'') (users (store s)) = Some usr
          \<and> u_is_active usr = Some True
        \<longrightarrow> get_current_user hs256 now tok s = (Inr usr, s))
   \<and> (\<forall>e. fst (get_current_user hs256 now tok s) = Inl e
        \<longrightarrow> depends_require_admin hs256 now tok s = (Inl e, s))
   \<and> (\<forall>usr. fst (get_current_user hs256 now tok s) = Inr usr
        \<longrightarrow> depends_require_admin hs256 now tok s =
              (if u_role usr \<noteq> Some ''admin''
               then Inl (HTTPException 403 Not_enough_permissions) else Inr usr, s))
   \<and> snd (get_current_user hs256 now tok s) = s"
proof -
  have unchanged: "snd (get_current_user hs256 now tok s) = s"
    by (simp add: get_current_user_def split: sum.splits option.splits)
  have pair: "get_current_user hs256 now tok s = (fst (get_current_user hs256 now tok s), s)"
    using unchanged by (metis prod.collapse)
  have dep_l: "\<And>e. fst (get_current_user hs256 now tok s) = Inl e
      \<Longrightarrow> depends_require_admin hs256 now tok s = (Inl e, s)"
    using pair by (simp add: depends_require_admin_def split: prod.splits sum.splits)
  have dep_r: "\<And>usr. fst (get_current_user hs256 now tok s) = Inr usr
      \<Longrightarrow> depends_require_admin hs256 now tok s =
              (if u_role usr \<noteq> Some ''admin''
               then Inl (HTTPException 403 Not_enough_permissions) else Inr usr, s)"
    using pair by (simp add: depends_require_admin_def require_admin_def split: prod.splits sum.splits)
  show ?thesis
    using unchanged dep_l dep_r
    by (simp add: get_current_user_def)
qed

theorem resolution_before_role_witness:
  "verify_token hs_const 1700000000000000
       (create_access_token hs_const 1700000000000000 (token_data ''bob'' ''admin'') None)
     = Inr ((token_data ''bob'' ''admin'')(''exp'' \<mapsto> JInt 1700000900))
   \<and> first (\<lambda>u. Some (JStr (u_username u)) = Some (JStr ''bob'')) (users (store (SessionLocal db2)))
       = Some user_bob
   \<and> u_is_active user_bob = Some False \<and> u_role user_bob = Some ''admin''
   \<and> depends_require_admin hs_const 1700000000000000
       (create_access_token hs_const 1700000000000000 (token_data ''bob'' ''admin'') None)
       (SessionLocal db2)
     = (Inl (HTTPException 400 Inactive_user), SessionLocal db2)"
proof -
  have v: "verify_token hs_const 1700000000000000
       (create_access_token hs_const 1700000000000000 (token_data ''bob'' ''admin'') None)
     = Inr ((token_data ''bob'' ''admin'')(''exp'' \<mapsto> JInt 1700000900))"
    by (simp add: create_None verify_created timegm_def timedelta_minutes_def)
  have s: "((token_data ''bob'' ''admin'')(''exp'' \<mapsto> JInt 1700000900)) ''sub'' = Some (JStr ''bob'')"
    by (simp add: token_data_def)
  have f: "first (\<lambda>u. Some (JStr (u_username u)) = Some (JStr ''bob'')) (users (store (SessionLocal db2)))
       = Some user_bob"
    by (simp add: first_def store_SessionLocal db2_def user_alice_def user_bob_def)
  have b: "u_is_active user_bob = Some False \<and> u_role user_bob = Some ''admin''"
    by (simp add: user_bob_def)
  show ?thesis
    using resolution_before_role [of hs_const 1700000000000000
        "create_access_token hs_const 1700000000000000 (token_data ''bob'' ''admin'') None"
        "SessionLocal db2"] v s f b
    by simp
qed

section \<open>Hashing and verifying a password\<close>

lemma hashpw_short:
  "refuses lib password = None \<Longrightarrow> length password \<le> 72 \<Longrightarrow> hashpw lib password salt =
     (if length salt < 29 \<or> \<not> accepts lib (take 29 salt)
      then Inl (ValueError ''Invalid salt'')
      else Inr (take 29 salt @ digest lib (take 29 salt) password))"
  by (simp add: hashpw_def)

text \<open>
  Claim C2, as the code has it. For a salt that \<^verbatim>\<open>gensalt\<close> returned and passwords \<open>p\<close>
  and \<open>q\<close> of at most 72 bytes that the package does not refuse,
  \<^verbatim>\<open>verify_password(p, hash_password(p))\<close> is true, and
  \<^verbatim>\<open>verify_password(p, hash_password(q))\<close> is true exactly when bcrypt's digests of \<open>p\<close>
  and of \<open>q\<close> for this salt are equal, and false otherwise.
\<close>

theorem hash_then_verify:
  "gensalt lib salt \<and> refuses lib p = None \<and> refuses lib q = None
     \<and> length p \<le> 72 \<and> length q \<le> 72
     \<longrightarrow> verify_hashed lib salt p p = Inr True
       \<and> verify_hashed lib salt p q = Inr (digest lib salt p = digest lib salt q)"
  by (simp add: gensalt_def verify_hashed_def hash_password_def verify_password_def checkpw_def
        hashpw_short)

theorem hash_then_verify_witness:
  "gensalt bcrypt_toy ''$2b$12$abcdefghijklmnopqrstuv''
   \<and> refuses bcrypt_toy ''secret123'' = None \<and> refuses bcrypt_toy ''secret124'' = None
   \<and> verify_hashed bcrypt_toy ''$2b$12$abcdefghijklmnopqrstuv'' ''secret123'' ''secret123'' = Inr True
   \<and> verify_hashed bcrypt_toy ''$2b$12$abcdefghijklmnopqrstuv'' ''secret123'' ''secret124'' = Inr False"
proof -
  have g: "gensalt bcrypt_toy ''$2b$12$abcdefghijklmnopqrstuv''"
    by (simp add: gensalt_def bcrypt_toy_def)
  have r: "refuses bcrypt_toy ''secret123'' = None" "refuses bcrypt_toy ''secret124'' = None"
    by (simp_all add: bcrypt_toy_def)
  have d: "digest bcrypt_toy ''$2b$12$abcdefghijklmnopqrstuv'' ''secret123''
        \<noteq> digest bcrypt_toy ''$2b$12$abcdefghijklmnopqrstuv'' ''secret124''"
    by (simp add: bcrypt_toy_def)
  show ?thesis
    using hash_then_verify [of bcrypt_toy "''$2b$12$abcdefghijklmnopqrstuv''" "''secret123''" "''secret124''"]
      hash_then_verify [of bcrypt_toy "''$2b$12$abcdefghijklmnopqrstuv''" "''secret123''" "''secret123''"]
      g r d
    by simp
qed

text \<open>
  Equal digests of distinct passwords cannot be excluded: the digest has 31 bytes, so among
  the passwords of 32 bytes two have the same digest, whatever the digest function is.
\<close>

lemma card_strings: "card {k::string. length k = n} = 256 ^ n"
proof -
  have "card {xs::string. set xs \<subseteq> UNIV \<and> length xs = n} = card (UNIV::char set) ^ n"
    by (rule card_lists_length_eq) simp
  then show ?thesis by (simp add: card_UNIV_char)
qed

lemma finite_strings: "finite {k::string. length k = n}"
  using finite_lists_length_eq [of "UNIV::char set" n] by simp

lemma digest_collision:
  assumes g: "gensalt lib salt" and len: "\<forall>k. length (digest lib salt k) = 31"
    and acc: "\<forall>k. length k = 32 \<longrightarrow> refuses lib k = None"
  shows "\<exists>p q. p \<noteq> q \<and> length p \<le> 72 \<and> length q \<le> 72 \<and> verify_hashed lib salt p q = Inr True"
proof -
  let ?A = "{k::string. length k = 32}"
  let ?B = "{k::string. length k = 31}"
  have sub: "digest lib salt ` ?A \<subseteq> ?B" using len by auto
  have "card (digest lib salt ` ?A) \<le> card ?B"
    by (rule card_mono [OF finite_strings sub])
  also have "\<dots> < card ?A" by (simp add: card_strings)
  finally have "\<not> inj_on (digest lib salt) ?A"
    using pigeonhole by blast
  then obtain p q where pq: "p \<in> ?A" "q \<in> ?A" "p \<noteq> q" "digest lib salt p = digest lib salt q"
    by (auto simp: inj_on_def)
  then have "verify_hashed lib salt p q = Inr True"
    using g acc by (simp add: gensalt_def verify_hashed_def hash_password_def verify_password_def
        checkpw_def hashpw_short)
  with pq have "p \<noteq> q \<and> length p \<le> 72 \<and> length q \<le> 72 \<and> verify_hashed lib salt p q = Inr True"
    by simp
  then show ?thesis by blast
qed

theorem digest_collision_witness:
  "\<exists>p q. p \<noteq> q \<and> length p \<le> 72 \<and> length q \<le> 72
     \<and> verify_hashed bcrypt_fixed ''$2b$12$abcdefghijklmnopqrstuv'' p q = Inr True"
proof -
  have g: "gensalt bcrypt_fixed ''$2b$12$abcdefghijklmnopqrstuv''"
    by (simp add: gensalt_def bcrypt_fixed_def)
  have l: "\<forall>k. length (digest bcrypt_fixed ''$2b$12$abcdefghijklmnopqrstuv'' k) = 31"
    by (auto simp: bcrypt_fixed_def)
  have a: "\<forall>k. length k = 32 \<longrightarrow> refuses bcrypt_fixed k = None"
    by (simp add: bcrypt_fixed_def)
  show ?thesis using digest_collision [OF g l a] .
qed

text \<open>
  The claim as the specification words it holds for every two distinct passwords. Two
  passwords of 73 bytes that differ in the last byte are distinct, and
  \<^verbatim>\<open>verify_password(p, hash_password(q))\<close> is not false for them, whatever the digest
  function, the salt and the version of the package: bcrypt reads 72 bytes, so the call
  returns true, or the package refuses the long password and the call raises.
\<close>

theorem long_passwords_not_told_apart:
  "replicate 72 (CHR ''a'') @ ''x'' \<noteq> replicate 72 (CHR ''a'') @ ''y''
   \<and> (\<forall>lib salt. verify_hashed lib salt (replicate 72 (CHR ''a'') @ ''x'')
                        (replicate 72 (CHR ''a'') @ ''y'') \<noteq> Inr False)"
  by (auto simp: verify_hashed_def hash_password_def verify_password_def checkpw_def hashpw_def
        Let_def split: option.splits)




section \<open>Usernames\<close>

text \<open>
  One request after the other: \<^verbatim>\<open>register_user\<close> rejects a username that a row already
  has, and a successful registration adds exactly the new username, so the usernames are
  distinct in every store that the routes produce from the empty database.
\<close>

lemma register_user_rejects_existing:
  "first (\<lambda>u. u_username u = uc_username usr) (users (store s)) \<noteq> None \<Longrightarrow>
   register_user lib salt usr s = (Inl (HTTPException 400 Username_registered), s)"
  by (auto simp: register_user_def register_user_checks_def)

lemma flush1_users:
  "flush1 c d = Inr d' \<Longrightarrow> \<not> is_add_user c \<Longrightarrow> users d' = users d"
  by (cases c) (auto simp: flush1_def split: if_splits option.splits sum.splits)

lemma flush_users:
  "flush cs d = Inr d' \<Longrightarrow> \<forall>c \<in> set cs. \<not> is_add_user c \<Longrightarrow> users d' = users d"
proof (induction cs arbitrary: d)
  case Nil
  then show ?case by simp
next
  case (Cons c cs)
  then obtain d1 where a: "flush1 c d = Inr d1" and r: "flush cs d1 = Inr d'"
    by (auto split: sum.splits)
  from a Cons.prems(2) have "users d1 = users d" using flush1_users by simp
  with r Cons.prems(2) Cons.IH show ?case by simp
qed

lemma flushed_users:
  "flushed d cs d' \<Longrightarrow> \<forall>c \<in> set cs. \<not> is_add_user c \<Longrightarrow> users d' = users d"
  using flush_users by (auto simp: flushed_def)

lemma users_after_register:
  "users (store (snd (register_user lib salt b (SessionLocal d)))) = users d
   \<or> (uc_username b \<notin> set (map u_username (users d))
      \<and> map u_username (users (store (snd (register_user lib salt b (SessionLocal d))))) =
          map u_username (users d) @ [uc_username b])"
proof (cases "register_user_checks b (SessionLocal d)")
  case (Some e)
  then show ?thesis by (simp add: register_user_def store_SessionLocal)
next
  case None
  then have new: "uc_username b \<notin> set (map u_username (users d))"
    by (auto simp: register_user_checks_def store_SessionLocal first_None_iff split: option.splits)
  show ?thesis
  proof (cases "hash_password lib salt (uc_password b)")
    case (Inl e)
    with None show ?thesis
      by (simp add: register_user_def register_user_insert_def store_SessionLocal store_rollback)
  next
    case h: (Inr h)
    show ?thesis
    proof (cases "flush1 (Add_user b h) d")
      case (Inl x)
      then have "x = IntegrityError ''UNIQUE constraint failed: users.email''"
        by (simp add: flush1_def split: if_splits)
      with Inl None h show ?thesis
        by (simp add: register_user_def register_user_insert_def commit_add Let_def
              store_rollback split: if_splits)
    next
      case (Inr d')
      then have u: "map u_username (users d') = map u_username (users d) @ [uc_username b]"
        by (auto simp: flush1_def split: if_splits)
      from Inr None h have "store (snd (register_user lib salt b (SessionLocal d))) = d'"
        by (simp add: register_user_def register_user_insert_def commit_add store_SessionLocal
              store_rollback split: sum.splits)
      with u new show ?thesis by simp
    qed
  qed
qed

lemma serve_usernames_distinct:
  assumes dist: "distinct (map u_username (users d))"
  shows "distinct (map u_username (users (serve lib r d)))"
proof (cases r)
  case (POST_clinics b)
  then show ?thesis
    using flushed_users [OF store_create_clinic [of d b]] dist by (simp add: serve_simps)
next
  case (PUT_clinic cid upd)
  obtain i where "flushed d (map (Setattr_clinic i) upd) (store (snd (update_clinic cid upd (SessionLocal d))))"
    using store_update_clinic by blast
  then have "users (store (snd (update_clinic cid upd (SessionLocal d)))) = users d"
    by (rule flushed_users) auto
  with PUT_clinic dist show ?thesis by (simp add: serve_simps)
next
  case (DELETE_clinic cid)
  then show ?thesis
    using flushed_users [OF store_delete_clinic [of d cid]] dist by (simp add: serve_simps)
next
  case (POST_doctors cid b)
  then show ?thesis
    using flushed_users [OF store_create_doctor [of d b cid]] dist by (simp add: serve_simps)
next
  case (PUT_doctor cid did upd)
  obtain i where "flushed d (map (Setattr_doctor i) upd) (store (snd (update_doctor cid did upd (SessionLocal d))))"
    using store_update_doctor by blast
  then have "users (store (snd (update_doctor cid did upd (SessionLocal d)))) = users d"
    by (rule flushed_users) auto
  with PUT_doctor dist show ?thesis by (simp add: serve_simps)
next
  case (DELETE_doctor cid did)
  then show ?thesis
    using flushed_users [OF store_delete_doctor [of d did cid]] dist by (simp add: serve_simps)
next
  case (POST_patients cid b)
  then show ?thesis
    using flushed_users [OF store_create_patient [of d b cid]] dist by (simp add: serve_simps)
next
  case (PUT_patient cid pid upd)
  obtain i where "flushed d (map (Setattr_patient i) upd) (store (snd (update_patient cid pid upd (SessionLocal d))))"
    using store_update_patient by blast
  then have "users (store (snd (update_patient cid pid upd (SessionLocal d)))) = users d"
    by (rule flushed_users) auto
  with PUT_patient dist show ?thesis by (simp add: serve_simps)
next
  case (DELETE_patient cid pid)
  then show ?thesis
    using flushed_users [OF store_delete_patient [of d pid cid]] dist by (simp add: serve_simps)
next
  case (POST_consultation cid did pid b)
  from store_create_consultation [of cid did pid b d]
  have "users (store (snd (create_doctor_patient_consultation cid did pid b (SessionLocal d)))) = users d"
    using flush1_users [of "Add_consultation b cid pid did" d] by auto
  with POST_consultation dist show ?thesis by (simp add: serve_simps)
next
  case (POST_register salt b)
  with users_after_register [of lib salt b d] dist show ?thesis
    by (auto simp: serve_simps)
qed

lemma reachable_usernames_distinct:
  "reachable lib d \<Longrightarrow> distinct (map u_username (users d))"
proof (induction rule: reachable.induct)
  case start
  show ?case by (simp add: empty_db_def)
next
  case (step d r)
  then show ?case by (simp add: serve_usernames_distinct)
qed

text \<open>
  Claim C9, evaluated where the code departs from it. The table \<^verbatim>\<open>users\<close> has a UNIQUE
  constraint on \<^verbatim>\<open>email\<close> and none on \<^verbatim>\<open>username\<close>. Two requests register the
  username alice with different e-mail addresses; both pass the two queries of
  \<^verbatim>\<open>register_user\<close> while the table is empty, as two concurrent requests do; then each
  runs the \<^verbatim>\<open>try\<close> block. Both commits succeed and the table holds two rows with the
  username alice.
\<close>

theorem username_not_unique:
  "register_user_checks alice (SessionLocal empty_db) = None
   \<and> register_user_checks alice_again (SessionLocal empty_db) = None
   \<and> map u_username (users (store (snd (register_user_insert bcrypt_toy ''$2b$12$abcdefghijklmnopqrstuv''
          alice_again
          (SessionLocal (store (snd (register_user_insert bcrypt_toy ''$2b$12$abcdefghijklmnopqrstuv''
             alice (SessionLocal empty_db))))))))) = [''alice'', ''alice'']"
proof -
  have h: "\<And>pw. length pw \<le> 72 \<Longrightarrow> hash_password bcrypt_toy ''$2b$12$abcdefghijklmnopqrstuv'' pw =
      Inr (''$2b$12$abcdefghijklmnopqrstuv'' @ rev pw)"
    by (simp add: hash_password_def hashpw_def bcrypt_toy_def)
  have c: "register_user_checks alice (SessionLocal empty_db) = None"
    "register_user_checks alice_again (SessionLocal empty_db) = None"
    by (simp_all add: register_user_checks_def store_SessionLocal first_def empty_db_def)
  have i1: "store (snd (register_user_insert bcrypt_toy ''$2b$12$abcdefghijklmnopqrstuv''
             alice (SessionLocal empty_db))) =
       empty_db\<lparr>users := [\<lparr>u_user_id = 1, u_username = ''alice'', u_email = ''alice@example.org'',
          u_hashed_password = ''$2b$12$abcdefghijklmnopqrstuv'' @ rev ''secret123'',
          u_full_name = Some ''Alice'', u_role = Some ''user'', u_is_active = Some True\<rparr>]\<rparr>"
    by (simp add: register_user_insert_def h alice_def commit_add flush1_def empty_db_def refresh_def
          next_id_def store_SessionLocal)
  show ?thesis
    unfolding i1 using c
    by (simp add: register_user_insert_def h alice_again_def commit_add flush1_def empty_db_def
          refresh_def next_id_def store_SessionLocal)
qed

end
